theory Spec2Isabelle
  imports Complex_Main "HOL-Library.AList"
begin

section \<open>The runtime the goal engine runs on\<close>

text \<open>
  The engine of \<^verbatim>\<open>lib/settings/goals.ts\<close> is TypeScript on top of the ECMAScript
  built-ins \<^verbatim>\<open>Number\<close>, \<^verbatim>\<open>String.prototype.split\<close>, \<^verbatim>\<open>Date\<close> and \<^verbatim>\<open>Math\<close>. This
  section models the part of those built-ins the engine calls.

  \<^item> A number is \<open>NaN\<close> or a value; integer-valued numbers are \<open>int jsnum\<close>,
    fractional ones \<open>real jsnum\<close> (exact arithmetic stands for IEEE doubles).
  \<^item> A \<^verbatim>\<open>Date\<close> is \<open>InvalidDate\<close> or a time value in milliseconds since the epoch.
  \<^item> The local time zone of the runtime is UTC, so the local calendar fields of a
    time value are its UTC fields; daylight-saving shifts are outside the model.
  \<^item> A \<^verbatim>\<open>Record<string, V>\<close> object is the association list of its own properties in
    insertion order. \<open>map_of\<close> reads an own key and \<open>AList.update\<close> writes one;
    \<open>getMember\<close> and \<open>setMember\<close> below are \<^verbatim>\<open>obj[key]\<close> and \<^verbatim>\<open>obj[key] = value\<close> with
    the members a plain object inherits from \<^verbatim>\<open>Object.prototype\<close>.
  \<^item> A function that reads the clock takes the reading as its argument \<open>now\<close>, a
    valid time value; the \<^verbatim>\<open>new Date()\<close> calls of one synchronous run read the same time.
\<close>

datatype 'a jsnum = NaN | Num 'a

datatype jsdate = InvalidDate | Date int

fun num2 :: "('a \<Rightarrow> 'b \<Rightarrow> 'c) \<Rightarrow> 'a jsnum \<Rightarrow> 'b jsnum \<Rightarrow> 'c jsnum" where
  "num2 f (Num a) (Num b) = Num (f a b)"
| "num2 f _ _ = NaN"

text \<open>Comparisons with \<open>NaN\<close> are false, whichever way they are written.\<close>

fun numLess :: "('a::linorder) jsnum \<Rightarrow> 'a jsnum \<Rightarrow> bool" where
  "numLess (Num a) (Num b) = (a < b)"
| "numLess _ _ = False"

fun numLessEq :: "('a::linorder) jsnum \<Rightarrow> 'a jsnum \<Rightarrow> bool" where
  "numLessEq (Num a) (Num b) = (a \<le> b)"
| "numLessEq _ _ = False"

text \<open>\<^verbatim>\<open>!x\<close> on a number: \<open>NaN\<close> and \<open>0\<close> are falsy.\<close>

fun falsyNum :: "int jsnum \<Rightarrow> bool" where
  "falsyNum NaN = True"
| "falsyNum (Num n) = (n = 0)"

text \<open>
  The properties of \<^verbatim>\<open>Object.prototype\<close>, which every plain object inherits: eleven
  functions and the accessor \<^verbatim>\<open>__proto__\<close>.
\<close>

definition objectPrototypeKeys :: "string list" where
  "objectPrototypeKeys =
     [''constructor'', ''__defineGetter__'', ''__defineSetter__'', ''hasOwnProperty'',
      ''__lookupGetter__'', ''__lookupSetter__'', ''isPrototypeOf'', ''propertyIsEnumerable'',
      ''toString'', ''valueOf'', ''__proto__'', ''toLocaleString'']"

text \<open>
  \<^verbatim>\<open>obj[key]\<close> on a plain object: the own property when there is one, else the inherited
  member when the key names one, else \<^verbatim>\<open>undefined\<close>. An inherited member is a function
  or the prototype object: it is truthy, and \<^verbatim>\<open>new Date\<close> of it is an invalid date.
\<close>

datatype 'v lookup = Absent | Own 'v | Inherited

definition getMember :: "(string \<times> 'v) list \<Rightarrow> string \<Rightarrow> 'v lookup" where
  "getMember obj key =
     (case map_of obj key of
        Some v \<Rightarrow> Own v
      | None \<Rightarrow> if key \<in> set objectPrototypeKeys then Inherited else Absent)"

fun falsyMember :: "string lookup \<Rightarrow> bool" where
  "falsyMember Absent = True"
| "falsyMember (Own s) = (s = [])"
| "falsyMember Inherited = False"

text \<open>
  \<^verbatim>\<open>obj[key] = value\<close> for a string value: the own property is written or created,
  except that \<^verbatim>\<open>__proto__\<close> without an own property reaches the inherited setter,
  which ignores a string.
\<close>

definition setMember :: "string \<Rightarrow> 'v \<Rightarrow> (string \<times> 'v) list \<Rightarrow> (string \<times> 'v) list" where
  "setMember key v obj =
     (if key = ''__proto__'' \<and> map_of obj key = None then obj else AList.update key v obj)"

text \<open>\<^verbatim>\<open>Math.round\<close> rounds half up; \<^verbatim>\<open>Math.max(0, x)\<close> keeps \<open>NaN\<close>.\<close>

definition mathRound :: "real jsnum \<Rightarrow> int jsnum" where
  "mathRound x = map_jsnum (\<lambda>r. \<lfloor>r + 1 / 2\<rfloor>) x"

definition mathMax0 :: "('a::{linorder, zero}) jsnum \<Rightarrow> 'a jsnum" where
  "mathMax0 x = map_jsnum (max 0) x"

subsection \<open>Strings and \<^verbatim>\<open>Number\<close>\<close>

text \<open>\<^verbatim>\<open>s.split('-')\<close>: the pieces between dashes, at least one piece.\<close>

fun splitDash :: "string \<Rightarrow> string list" where
  "splitDash [] = [[]]"
| "splitDash (c # cs) =
     (if c = CHR ''-'' then [] # splitDash cs
      else (case splitDash cs of p # ps \<Rightarrow> (c # p) # ps | [] \<Rightarrow> [[c]]))"

text \<open>
  Array destructuring \<^verbatim>\<open>const [a, b, c] = parts\<close>: a position past the end is
  \<^verbatim>\<open>undefined\<close>, which every arithmetic use turns into \<open>NaN\<close>.
\<close>

definition nthNum :: "int jsnum list \<Rightarrow> nat \<Rightarrow> int jsnum" where
  "nthNum xs i = (if i < length xs then xs ! i else NaN)"

definition nthStr :: "string list \<Rightarrow> nat \<Rightarrow> string option" where
  "nthStr xs i = (if i < length xs then Some (xs ! i) else None)"

definition isDigit :: "char \<Rightarrow> bool" where
  "isDigit c = (c \<in> set ''0123456789'')"

definition digitVal :: "char \<Rightarrow> int" where
  "digitVal c = int (of_char c) - 48"

definition digitsVal :: "string \<Rightarrow> int" where
  "digitsVal ds = foldl (\<lambda>acc c. 10 * acc + digitVal c) 0 ds"

definition isSpace :: "char \<Rightarrow> bool" where
  "isSpace c = (of_char c \<in> {9, 10, 11, 12, 13, 32 :: nat})"

definition trim :: "string \<Rightarrow> string" where
  "trim s = rev (dropWhile isSpace (rev (dropWhile isSpace s)))"

definition decimalDigits :: "string \<Rightarrow> int jsnum" where
  "decimalDigits ds = (if ds \<noteq> [] \<and> list_all isDigit ds then Num (digitsVal ds) else NaN)"

text \<open>
  \<^verbatim>\<open>Number(s)\<close> on a string: surrounding white space is dropped, the empty string is
  \<open>0\<close>, an optionally signed run of decimal digits is its value, and a string with no
  numeric reading is \<open>NaN\<close>. The other numeric literals of ECMAScript (a fraction, an
  exponent, \<^verbatim>\<open>0x\<close>, \<^verbatim>\<open>0o\<close>, \<^verbatim>\<open>0b\<close>, \<^verbatim>\<open>Infinity\<close>) are outside the model:
  \<open>toNumber\<close> gives \<open>NaN\<close> for them, so it is exact on strings that hold none of them.
\<close>

definition toNumber :: "string \<Rightarrow> int jsnum" where
  "toNumber s =
     (case trim s of
        [] \<Rightarrow> Num 0
      | c # cs \<Rightarrow>
          if c = CHR ''+'' then decimalDigits cs
          else if c = CHR ''-'' then map_jsnum uminus (decimalDigits cs)
          else decimalDigits (c # cs))"

text \<open>\<^verbatim>\<open>Number(x)\<close> where \<open>x\<close> may be \<^verbatim>\<open>undefined\<close>.\<close>

fun toNumberOpt :: "string option \<Rightarrow> int jsnum" where
  "toNumberOpt None = NaN"
| "toNumberOpt (Some s) = toNumber s"

text \<open>Template-literal printing of an integer, and \<^verbatim>\<open>padStart(2, '0')\<close>.\<close>

fun showNat :: "nat \<Rightarrow> string" where
  "showNat n = (if n < 10 then [char_of (48 + n)] else showNat (n div 10) @ [char_of (48 + n mod 10)])"

definition showInt :: "int \<Rightarrow> string" where
  "showInt i = (if i < 0 then CHR ''-'' # showNat (nat (- i)) else showNat (nat i))"

fun showNum :: "int jsnum \<Rightarrow> string" where
  "showNum NaN = ''NaN''"
| "showNum (Num i) = showInt i"

definition padStart :: "nat \<Rightarrow> string \<Rightarrow> string" where
  "padStart n s = replicate (n - length s) CHR ''0'' @ s"

subsection \<open>The calendar of \<^verbatim>\<open>Date\<close>\<close>

definition msPerDay :: int where
  "msPerDay = 86400000"

definition maxTime :: int where
  "maxTime = 8640000000000000"

definition dayFromYear :: "int \<Rightarrow> int" where
  "dayFromYear y = 365 * (y - 1970) + (y - 1969) div 4 - (y - 1901) div 100 + (y - 1601) div 400"

definition inLeapYear :: "int \<Rightarrow> bool" where
  "inLeapYear y = ((y mod 4 = 0 \<and> y mod 100 \<noteq> 0) \<or> y mod 400 = 0)"

text \<open>The largest year whose first day is not after day \<open>n\<close>.\<close>

definition yearFromDay :: "int \<Rightarrow> int" where
  "yearFromDay n =
     (let y0 = 1970 + (400 * n) div 146097 in
      if n < dayFromYear y0 then y0 - 1
      else if dayFromYear (y0 + 1) \<le> n then y0 + 1
      else y0)"

text \<open>The number of days of the year before month \<open>m\<close> (January is \<open>0\<close>).\<close>

definition monthStart :: "bool \<Rightarrow> int \<Rightarrow> int" where
  "monthStart leap m =
     (let l = (if leap then 1 else 0) in
      if m \<le> 0 then 0 else if m = 1 then 31 else if m = 2 then 59 + l
      else if m = 3 then 90 + l else if m = 4 then 120 + l else if m = 5 then 151 + l
      else if m = 6 then 181 + l else if m = 7 then 212 + l else if m = 8 then 243 + l
      else if m = 9 then 273 + l else if m = 10 then 304 + l else if m = 11 then 334 + l
      else 365 + l)"

definition dayWithinYear :: "int \<Rightarrow> int" where
  "dayWithinYear n = n - dayFromYear (yearFromDay n)"

definition monthFromDay :: "int \<Rightarrow> int" where
  "monthFromDay n =
     (let leap = inLeapYear (yearFromDay n); d = dayWithinYear n in
      if d < monthStart leap 1 then 0 else if d < monthStart leap 2 then 1
      else if d < monthStart leap 3 then 2 else if d < monthStart leap 4 then 3
      else if d < monthStart leap 5 then 4 else if d < monthStart leap 6 then 5
      else if d < monthStart leap 7 then 6 else if d < monthStart leap 8 then 7
      else if d < monthStart leap 9 then 8 else if d < monthStart leap 10 then 9
      else if d < monthStart leap 11 then 10 else 11)"

definition dateFromDay :: "int \<Rightarrow> int" where
  "dateFromDay n = dayWithinYear n - monthStart (inLeapYear (yearFromDay n)) (monthFromDay n) + 1"

text \<open>\<^verbatim>\<open>MakeDay\<close>: months and days out of range carry over into the next unit.\<close>

definition makeDay :: "int \<Rightarrow> int \<Rightarrow> int \<Rightarrow> int" where
  "makeDay y m d =
     (let ym = y + m div 12; mn = m mod 12 in
      dayFromYear ym + monthStart (inLeapYear ym) mn + d - 1)"

definition timeClip :: "int \<Rightarrow> jsdate" where
  "timeClip t = (if \<bar>t\<bar> \<le> maxTime then Date t else InvalidDate)"

text \<open>
  \<^verbatim>\<open>new Date(year, monthIndex, day)\<close> at local midnight. A year from 0 to 99 means
  1900 + year; a \<open>NaN\<close> argument gives an invalid date.
\<close>

fun newDate :: "int jsnum \<Rightarrow> int jsnum \<Rightarrow> int jsnum \<Rightarrow> jsdate" where
  "newDate (Num y) (Num m) (Num d) =
     timeClip (makeDay (if 0 \<le> y \<and> y \<le> 99 then 1900 + y else y) m d * msPerDay)"
| "newDate _ _ _ = InvalidDate"

fun getTime :: "jsdate \<Rightarrow> int jsnum" where
  "getTime InvalidDate = NaN"
| "getTime (Date t) = Num t"

fun getFullYear :: "jsdate \<Rightarrow> int jsnum" where
  "getFullYear InvalidDate = NaN"
| "getFullYear (Date t) = Num (yearFromDay (t div msPerDay))"

fun getMonth :: "jsdate \<Rightarrow> int jsnum" where
  "getMonth InvalidDate = NaN"
| "getMonth (Date t) = Num (monthFromDay (t div msPerDay))"

fun getDate :: "jsdate \<Rightarrow> int jsnum" where
  "getDate InvalidDate = NaN"
| "getDate (Date t) = Num (dateFromDay (t div msPerDay))"

text \<open>
  \<^verbatim>\<open>toISOString()\<close> of a valid time value: \<^verbatim>\<open>YYYY-MM-DDTHH:mm:ss.sssZ\<close>, with a signed
  six-digit year outside 0 to 9999.
\<close>

definition isoYear :: "int \<Rightarrow> string" where
  "isoYear y =
     (if 0 \<le> y \<and> y \<le> 9999 then padStart 4 (showNat (nat y))
      else (if y < 0 then CHR ''-'' else CHR ''+'') # padStart 6 (showNat (nat \<bar>y\<bar>)))"

definition toISOString :: "int \<Rightarrow> string" where
  "toISOString t =
     (let n = t div msPerDay; r = t mod msPerDay in
      isoYear (yearFromDay n) @ ''-'' @ padStart 2 (showInt (monthFromDay n + 1)) @ ''-''
        @ padStart 2 (showInt (dateFromDay n)) @ ''T''
        @ padStart 2 (showInt (r div 3600000)) @ '':''
        @ padStart 2 (showInt (r div 60000 mod 60)) @ '':''
        @ padStart 2 (showInt (r div 1000 mod 60)) @ ''.''
        @ padStart 3 (showInt (r mod 1000)) @ ''Z'')"

text \<open>
  \<^verbatim>\<open>new Date(string)\<close> is left to the runtime outside the ISO format, so the engine's
  functions below take the string parser as their first argument \<open>parse\<close>. \<open>isoParse\<close>
  is the parser on the format \<^verbatim>\<open>toISOString\<close> writes, with or without the
  milliseconds, and reads nothing else; it stands for the runtime where a concrete
  time stamp is evaluated.
\<close>

definition digitsAt :: "string \<Rightarrow> nat \<Rightarrow> nat \<Rightarrow> int jsnum" where
  "digitsAt s i n = (if i + n \<le> length s then decimalDigits (take n (drop i s)) else NaN)"

definition charAt :: "string \<Rightarrow> nat \<Rightarrow> char option" where
  "charAt s i = (if i < length s then Some (s ! i) else None)"

definition daysInMonth :: "int \<Rightarrow> int \<Rightarrow> int" where
  "daysInMonth y m = monthStart (inLeapYear y) (m + 1) - monthStart (inLeapYear y) m"

definition isoParse :: "string \<Rightarrow> jsdate" where
  "isoParse s =
     (case (digitsAt s 0 4, digitsAt s 5 2, digitsAt s 8 2, digitsAt s 11 2, digitsAt s 14 2,
            digitsAt s 17 2) of
        (Num y, Num mo, Num d, Num h, Num mi, Num sec) \<Rightarrow>
          (let ms = (if length s = 24 then digitsAt s 20 3 else Num 0);
               shape =
                 (charAt s 4 = Some CHR ''-'' \<and> charAt s 7 = Some CHR ''-''
                  \<and> charAt s 10 = Some CHR ''T'' \<and> charAt s 13 = Some CHR '':''
                  \<and> charAt s 16 = Some CHR '':''
                  \<and> ((length s = 20 \<and> charAt s 19 = Some CHR ''Z'')
                     \<or> (length s = 24 \<and> charAt s 19 = Some CHR ''.''
                        \<and> charAt s 23 = Some CHR ''Z'')))
           in case ms of
                NaN \<Rightarrow> InvalidDate
              | Num f \<Rightarrow>
                  if shape \<and> 1 \<le> mo \<and> mo \<le> 12 \<and> 1 \<le> d \<and> d \<le> daysInMonth y (mo - 1)
                     \<and> h \<le> 23 \<and> mi \<le> 59 \<and> sec \<le> 59
                  then timeClip (makeDay y (mo - 1) d * msPerDay
                                 + h * 3600000 + mi * 60000 + sec * 1000 + f)
                  else InvalidDate)
      | _ \<Rightarrow> InvalidDate)"

section \<open>Types of the goal engine\<close>

text \<open>
  \<^verbatim>\<open>GoalType\<close> is \<^verbatim>\<open>'year' | 'season' | 'month' | 'today' | 'custom'\<close>; \<open>PeriodType\<close>
  is \<^verbatim>\<open>Exclude<GoalType, 'custom'>\<close>. Record fields carry a prefix of their record,
  since several records of the source share field names.
\<close>

datatype PeriodType = Year | Season | Month | Today

datatype GoalType = Periodic PeriodType | Custom

datatype GoalSelection = PeriodSelection PeriodType string | CustomSelection string

record GoalTarget =
  tgt_goalType :: PeriodType
  tgt_periodKey :: string
  tgt_targetVolumes :: real
  tgt_createdAt :: string

record CustomGoal =
  cg_id :: string
  cg_name :: string
  cg_targetVolumes :: real
  cg_startDate :: string
  cg_endDate :: string
  cg_enabled :: bool
  cg_createdAt :: string

text \<open>
  A period label is a fixed text, or what \<^verbatim>\<open>toLocaleDateString\<close> prints for a date in
  the long month-and-year or the short day form; the locale's wording is not fixed.
\<close>

datatype Label = Text string | LocaleMonthYear jsdate | LocaleShortDay jsdate

record GoalPeriod =
  gp_goalType :: GoalType
  gp_periodKey :: string
  gp_label :: Label
  gp_start :: jsdate
  gp_end :: jsdate

type_synonym CompletedAtMap = "(string \<times> string) list"

record GoalSnapshot =
  snap_goalType :: GoalType
  snap_periodKey :: string
  snap_startDate :: string
  snap_endDate :: string
  snap_closedAt :: string
  snap_completed :: "(string \<times> string) list"

type_synonym GoalSnapshots = "(string \<times> GoalSnapshot) list"

record GoalsData =
  targets :: "GoalTarget list"
  customGoals :: "CustomGoal list"
  activeSelection :: GoalSelection

text \<open>
  The reading-progress log gives, per volume, the current page, the completed flag and
  the time of the last progress update (absent or a string); the catalog gives the page
  count, read as \<open>0\<close> when the volume or the count is missing.
\<close>

record VolumeData =
  progress :: int
  completed :: bool
  lastProgressUpdate :: "string option"

type_synonym Volumes = "(string \<times> VolumeData) list"

type_synonym Catalog = "string \<Rightarrow> int option"

section \<open>Date utilities\<close>

definition seasonNames :: "string list" where
  "seasonNames = [''Winter'', ''Spring'', ''Summer'', ''Autumn'']"

text \<open>
  \<^verbatim>\<open>dateUtils.calculateDaysRemaining(endDate, startDate)\<close>; \<open>endDate\<close> is a string
  (\<open>Inl\<close>) or a \<^verbatim>\<open>Date\<close> (\<open>Inr\<close>).
\<close>

definition calculateDaysRemaining :: "string + jsdate \<Rightarrow> jsdate \<Rightarrow> int jsnum" where
  "calculateDaysRemaining endDate startDate =
     (let endD =
            (case endDate of
               Inr d \<Rightarrow> d
             | Inl s \<Rightarrow>
                 (let parts = map toNumber (splitDash s) in
                  newDate (nthNum parts 0) (num2 (-) (nthNum parts 1) (Num 1)) (nthNum parts 2)))
      in if getTime endD = NaN then Num 0
         else
           (let endMidnight =
                  newDate (getFullYear endD) (getMonth endD) (num2 (+) (getDate endD) (Num 1));
                startMidnight =
                  newDate (getFullYear startDate) (getMonth startDate) (getDate startDate);
                diffInMs = num2 (-) (getTime endMidnight) (getTime startMidnight);
                diffInDays = map_jsnum (\<lambda>d. real_of_int d / real_of_int msPerDay) diffInMs
            in mathMax0 (mathRound diffInDays)))"

definition formatDate :: "jsdate \<Rightarrow> string" where
  "formatDate date =
     (let year = showNum (getFullYear date);
          month = padStart 2 (showNum (num2 (+) (getMonth date) (Num 1)));
          day = padStart 2 (showNum (getDate date))
      in year @ ''-'' @ month @ ''-'' @ day)"

definition startOfDay :: "jsdate \<Rightarrow> jsdate" where
  "startOfDay date = newDate (getFullYear date) (getMonth date) (getDate date)"

definition seasonIndex :: "jsdate \<Rightarrow> int jsnum" where
  "seasonIndex date = map_jsnum (\<lambda>m. m div 3) (getMonth date)"

definition seasonRange :: "int \<Rightarrow> int \<Rightarrow> jsdate \<times> jsdate" where
  "seasonRange year sIndex =
     (newDate (Num year) (Num (sIndex * 3)) (Num 1),
      newDate (Num year) (Num (sIndex * 3 + 3)) (Num 1))"

definition monthRange :: "int \<Rightarrow> int jsnum \<Rightarrow> jsdate \<times> jsdate" where
  "monthRange year monthIndex =
     (newDate (Num year) monthIndex (Num 1),
      newDate (Num year) (num2 (+) monthIndex (Num 1)) (Num 1))"

text \<open>\<^verbatim>\<open>seasonNames[i] || 'Unknown'\<close> and \<^verbatim>\<open>seasonNames.indexOf(name)\<close>.\<close>

definition seasonNameAt :: "int jsnum \<Rightarrow> string option" where
  "seasonNameAt i =
     (case i of
        NaN \<Rightarrow> None
      | Num k \<Rightarrow> if 0 \<le> k \<and> k < 4 then Some (seasonNames ! nat k) else None)"

fun indexOfFrom :: "nat \<Rightarrow> 'a list \<Rightarrow> 'a \<Rightarrow> nat option" where
  "indexOfFrom i [] x = None"
| "indexOfFrom i (y # ys) x = (if y = x then Some i else indexOfFrom (Suc i) ys x)"

definition buildSeasonKey :: "int jsnum \<Rightarrow> int jsnum \<Rightarrow> string" where
  "buildSeasonKey year sIndex =
     showNum year @ ''-'' @ (case seasonNameAt sIndex of Some n \<Rightarrow> n | None \<Rightarrow> ''Unknown'')"

definition buildMonthKey :: "int jsnum \<Rightarrow> int jsnum \<Rightarrow> string" where
  "buildMonthKey year monthIndex =
     showNum year @ ''-'' @ padStart 2 (showNum (num2 (+) monthIndex (Num 1)))"

definition buildYearKey :: "int jsnum \<Rightarrow> string" where
  "buildYearKey year = showNum year"

definition buildTodayKey :: "jsdate \<Rightarrow> string" where
  "buildTodayKey date = formatDate date"

definition isDateWithinRange :: "(string \<Rightarrow> jsdate) \<Rightarrow> string \<Rightarrow> jsdate \<Rightarrow> jsdate \<Rightarrow> bool" where
  "isDateWithinRange parse dateIso start endD =
     (let date = parse dateIso in
      if getTime date = NaN then False
      else numLessEq (getTime start) (getTime date) \<and> numLess (getTime date) (getTime endD))"

section \<open>Period resolver\<close>

definition parseSeasonKey :: "string \<Rightarrow> (int \<times> int) option" where
  "parseSeasonKey periodKey =
     (let parts = splitDash periodKey;
          year = toNumberOpt (nthStr parts 0);
          sIndex = (case nthStr parts 1 of None \<Rightarrow> None | Some p \<Rightarrow> indexOfFrom 0 seasonNames p)
      in case (year, sIndex) of
           (Num y, Some i) \<Rightarrow> Some (y, int i)
         | _ \<Rightarrow> None)"

definition parseMonthKey :: "string \<Rightarrow> (int \<times> int jsnum) option" where
  "parseMonthKey periodKey =
     (let parts = splitDash periodKey;
          year = toNumberOpt (nthStr parts 0);
          monthIndex = num2 (-) (toNumberOpt (nthStr parts 1)) (Num 1)
      in case year of
           NaN \<Rightarrow> None
         | Num y \<Rightarrow>
             if numLess monthIndex (Num 0) \<or> numLess (Num 11) monthIndex then None
             else Some (y, monthIndex))"

definition parseYearKey :: "string \<Rightarrow> int option" where
  "parseYearKey periodKey = (case toNumber periodKey of NaN \<Rightarrow> None | Num y \<Rightarrow> Some y)"

text \<open>
  \<^verbatim>\<open>getPeriodForSelection(selection)\<close>; \<open>None\<close> is \<^verbatim>\<open>null\<close>. The source ends with a
  fallback period for a goal type outside the declared five, which no value of
  \<open>GoalSelection\<close> reaches.
\<close>

fun getPeriodForSelection :: "GoalSelection \<Rightarrow> GoalPeriod option" where
  "getPeriodForSelection (CustomSelection customId) = None"
| "getPeriodForSelection (PeriodSelection Year periodKey) =
     (case parseYearKey periodKey of
        None \<Rightarrow> None
      | Some year \<Rightarrow>
          Some \<lparr>gp_goalType = Periodic Year, gp_periodKey = periodKey,
                gp_label = Text (showInt year),
                gp_start = newDate (Num year) (Num 0) (Num 1),
                gp_end = newDate (Num (year + 1)) (Num 0) (Num 1)\<rparr>)"
| "getPeriodForSelection (PeriodSelection Season periodKey) =
     (case parseSeasonKey periodKey of
        None \<Rightarrow> None
      | Some (year, sIndex) \<Rightarrow>
          Some \<lparr>gp_goalType = Periodic Season, gp_periodKey = periodKey,
                gp_label = Text (seasonNames ! nat sIndex @ '' '' @ showInt year),
                gp_start = fst (seasonRange year sIndex),
                gp_end = snd (seasonRange year sIndex)\<rparr>)"
| "getPeriodForSelection (PeriodSelection Month periodKey) =
     (case parseMonthKey periodKey of
        None \<Rightarrow> None
      | Some (year, monthIndex) \<Rightarrow>
          Some \<lparr>gp_goalType = Periodic Month, gp_periodKey = periodKey,
                gp_label = LocaleMonthYear (fst (monthRange year monthIndex)),
                gp_start = fst (monthRange year monthIndex),
                gp_end = snd (monthRange year monthIndex)\<rparr>)"
| "getPeriodForSelection (PeriodSelection Today periodKey) =
     (let parts = map toNumber (splitDash periodKey);
          yearPart = nthNum parts 0; monthPart = nthNum parts 1; dayPart = nthNum parts 2
      in if falsyNum yearPart \<or> falsyNum monthPart \<or> falsyNum dayPart then None
         else
           (let start = newDate yearPart (num2 (-) monthPart (Num 1)) dayPart;
                endD = newDate yearPart (num2 (-) monthPart (Num 1)) (num2 (+) dayPart (Num 1))
            in Some \<lparr>gp_goalType = Periodic Today, gp_periodKey = periodKey,
                     gp_label = LocaleShortDay start, gp_start = start, gp_end = endD\<rparr>))"

text \<open>\<^verbatim>\<open>getCurrentPeriodKey(goalType)\<close> at the time \<open>now\<close> of the call.\<close>

fun getCurrentPeriodKey :: "int \<Rightarrow> PeriodType \<Rightarrow> string" where
  "getCurrentPeriodKey now Year = buildYearKey (getFullYear (Date now))"
| "getCurrentPeriodKey now Season =
     buildSeasonKey (getFullYear (Date now)) (seasonIndex (Date now))"
| "getCurrentPeriodKey now Month = buildMonthKey (getFullYear (Date now)) (getMonth (Date now))"
| "getCurrentPeriodKey now Today = buildTodayKey (Date now)"

section \<open>Goal store\<close>

text \<open>
  Each operation is the function its \<^verbatim>\<open>_goalsData.update\<close> call applies to the stored
  aggregate; \<open>now\<close> is the clock reading of the call.
\<close>

fun findIndexFrom :: "nat \<Rightarrow> ('a \<Rightarrow> bool) \<Rightarrow> 'a list \<Rightarrow> nat option" where
  "findIndexFrom i P [] = None"
| "findIndexFrom i P (x # xs) = (if P x then Some i else findIndexFrom (Suc i) P xs)"

definition setGoalTarget :: "int \<Rightarrow> PeriodType \<Rightarrow> string \<Rightarrow> real \<Rightarrow> GoalsData \<Rightarrow> GoalsData" where
  "setGoalTarget now goalType periodKey targetVolumes data =
     (let existingIndex =
            findIndexFrom 0 (\<lambda>goal. tgt_goalType goal = goalType \<and> tgt_periodKey goal = periodKey)
              (targets data);
          updatedTargets =
            (case existingIndex of
               Some i \<Rightarrow> (targets data)[i := (targets data ! i)\<lparr>tgt_targetVolumes := targetVolumes\<rparr>]
             | None \<Rightarrow>
                 targets data @
                   [\<lparr>tgt_goalType = goalType, tgt_periodKey = periodKey,
                     tgt_targetVolumes = targetVolumes, tgt_createdAt = toISOString now\<rparr>])
      in data\<lparr>targets := updatedTargets\<rparr>)"

definition removeGoalTarget :: "PeriodType \<Rightarrow> string \<Rightarrow> GoalsData \<Rightarrow> GoalsData" where
  "removeGoalTarget goalType periodKey data =
     data\<lparr>targets :=
       filter (\<lambda>goal. \<not> (tgt_goalType goal = goalType \<and> tgt_periodKey goal = periodKey))
         (targets data)\<rparr>"

definition setActiveGoalSelection :: "GoalSelection \<Rightarrow> GoalsData \<Rightarrow> GoalsData" where
  "setActiveGoalSelection selection data = data\<lparr>activeSelection := selection\<rparr>"

definition updateCustomGoal :: "CustomGoal \<Rightarrow> GoalsData \<Rightarrow> GoalsData" where
  "updateCustomGoal updatedGoal data =
     data\<lparr>customGoals :=
       map (\<lambda>goal. if cg_id goal = cg_id updatedGoal then updatedGoal else goal)
         (customGoals data)\<rparr>"

definition removeCustomGoal :: "int \<Rightarrow> string \<Rightarrow> GoalsData \<Rightarrow> GoalsData" where
  "removeCustomGoal now customId data =
     (let nextSelection =
            (if activeSelection data = CustomSelection customId
             then PeriodSelection Year (getCurrentPeriodKey now Year)
             else activeSelection data)
      in data\<lparr>customGoals := filter (\<lambda>goal. cg_id goal \<noteq> customId) (customGoals data),
              activeSelection := nextSelection\<rparr>)"

section \<open>Completion ledger\<close>

text \<open>
  The ledger is the store \<^verbatim>\<open>_completedAtMap\<close>. Its persisted form lives inside the
  \<^verbatim>\<open>volumes\<close> item of local storage, one JSON object per volume, with the marker
  \<^verbatim>\<open>completedAtUpdatedAt\<close> beside it. \<open>volumesItem\<close> is \<open>None\<close> when the item is absent,
  does not parse or is not an object: in each of these cases the source returns before
  any write. A stored volume is the list of its properties. The stored record is read by
  its own keys, the volume ids; a ledger key that names a member of
  \<^verbatim>\<open>Object.prototype\<close> is outside this part of the model.
\<close>

type_synonym StoredVolume = "(string \<times> string) list"

record LedgerStore =
  browser :: bool
  completedAtMap :: CompletedAtMap
  volumesItem :: "(string \<times> StoredVolume) list option"
  completedAtUpdatedAt :: "string option"

text \<open>One step of the loop of \<^verbatim>\<open>persistCompletedAtMapToVolumes\<close> over the ledger.\<close>

definition persistEntry ::
  "(string \<times> StoredVolume) list \<Rightarrow> string \<times> string \<Rightarrow> (string \<times> StoredVolume) list" where
  "persistEntry volumesPayload entry =
     (case entry of
        (volumeId, completedAt) \<Rightarrow>
          (case map_of volumesPayload volumeId of
             None \<Rightarrow> volumesPayload
           | Some stored \<Rightarrow>
               AList.update volumeId (AList.update ''completedAt'' completedAt stored)
                 volumesPayload))"

definition persistCompletedAtMapToVolumes :: "int \<Rightarrow> CompletedAtMap \<Rightarrow> LedgerStore \<Rightarrow> LedgerStore" where
  "persistCompletedAtMapToVolumes now m st =
     (if \<not> browser st then st
      else
        (case volumesItem st of
           None \<Rightarrow> st
         | Some parsed \<Rightarrow>
             st\<lparr>volumesItem := Some (foldl persistEntry parsed m),
                completedAtUpdatedAt := Some (toISOString now)\<rparr>))"

definition isVolumeCompleted :: "VolumeData \<Rightarrow> int \<Rightarrow> bool" where
  "isVolumeCompleted volumeData totalPages =
     (completed volumeData \<or> (totalPages > 0 \<and> progress volumeData \<ge> totalPages))"

text \<open>
  The function the backfill subscriber applies to the ledger, and one step of its loop
  over the progress log. \<open>m\<close> is the ledger before the pass: the source tests
  \<^verbatim>\<open>map[volumeId]\<close> on it and writes into the copy \<open>updated\<close>. One pass is one
  synchronous run, with one clock reading \<open>now\<close>.
\<close>

definition backfillEntry ::
  "int \<Rightarrow> Catalog \<Rightarrow> CompletedAtMap \<Rightarrow> CompletedAtMap \<Rightarrow> string \<times> VolumeData \<Rightarrow> CompletedAtMap" where
  "backfillEntry now catalog m updated entry =
     (case entry of
        (volumeId, volumeData) \<Rightarrow>
          if \<not> falsyMember (getMember m volumeId) then updated
          else
            (let totalPages = (case catalog volumeId of Some n \<Rightarrow> n | None \<Rightarrow> 0) in
             if \<not> isVolumeCompleted volumeData totalPages then updated
             else
               AList.update volumeId
                 (case lastProgressUpdate volumeData of
                    None \<Rightarrow> toISOString now
                  | Some u \<Rightarrow> if u = [] then toISOString now else u)
                 updated))"

definition backfillCompletedAt :: "int \<Rightarrow> Volumes \<Rightarrow> Catalog \<Rightarrow> CompletedAtMap \<Rightarrow> CompletedAtMap" where
  "backfillCompletedAt now volumes catalog m = foldl (backfillEntry now catalog m) m volumes"

text \<open>
  The subscriber on the progress log and the catalog: it returns at once outside the
  browser or when the log is undefined (\<open>None\<close>); otherwise it updates the ledger and
  queues \<^verbatim>\<open>persistCompletedAtMapToVolumes\<close> for the ledger it produced. The queued
  call runs as the next microtask, before any later pass, so the model runs it at the
  end of the pass. The source assigns \<^verbatim>\<open>nextMap\<close> in every update, so its
  \<^verbatim>\<open>if (!nextMap) return\<close> never returns.
\<close>

definition backfillSubscriber :: "int \<Rightarrow> Volumes option \<Rightarrow> Catalog \<Rightarrow> LedgerStore \<Rightarrow> LedgerStore" where
  "backfillSubscriber now volumes catalog st =
     (case volumes of
        None \<Rightarrow> st
      | Some vs \<Rightarrow>
          if \<not> browser st then st
          else
            (let nextMap = backfillCompletedAt now vs catalog (completedAtMap st)
             in persistCompletedAtMapToVolumes now nextMap (st\<lparr>completedAtMap := nextMap\<rparr>)))"

section \<open>Sync merge of the ledger\<close>




section \<open>Snapshot finalizer\<close>

fun goalTypeName :: "GoalType \<Rightarrow> string" where
  "goalTypeName (Periodic Year) = ''year''"
| "goalTypeName (Periodic Season) = ''season''"
| "goalTypeName (Periodic Month) = ''month''"
| "goalTypeName (Periodic Today) = ''today''"
| "goalTypeName Custom = ''custom''"

definition buildGoalSnapshotKey :: "GoalType \<Rightarrow> string \<Rightarrow> string" where
  "buildGoalSnapshotKey goalType periodKey = goalTypeName goalType @ '':'' @ periodKey"

definition createSnapshotForPeriod ::
  "(string \<Rightarrow> jsdate) \<Rightarrow> int \<Rightarrow> CompletedAtMap \<Rightarrow> GoalType \<Rightarrow> string \<Rightarrow> jsdate \<Rightarrow> jsdate \<Rightarrow> GoalSnapshot" where
  "createSnapshotForPeriod parse now ledger goalType periodKey start endD =
     \<lparr>snap_goalType = goalType, snap_periodKey = periodKey,
      snap_startDate = formatDate start, snap_endDate = formatDate endD,
      snap_closedAt = toISOString now,
      snap_completed =
        foldl
          (\<lambda>kept (volumeId, completedAt).
             if completedAt \<noteq> [] \<and> isDateWithinRange parse completedAt start endD
             then setMember volumeId completedAt kept else kept)
          [] ledger\<rparr>"

text \<open>
  A snapshot key holds a colon, which no member of \<^verbatim>\<open>Object.prototype\<close> does, so
  \<^verbatim>\<open>snapshots[snapshotKey]\<close> is a read of an own key.
\<close>

definition finalizeGoalSnapshot ::
  "(string \<Rightarrow> jsdate) \<Rightarrow> int \<Rightarrow> CompletedAtMap \<Rightarrow> GoalType \<Rightarrow> string \<Rightarrow> jsdate \<Rightarrow> jsdate
     \<Rightarrow> GoalSnapshots \<Rightarrow> GoalSnapshots" where
  "finalizeGoalSnapshot parse now ledger goalType periodKey start endD snapshots =
     (let snapshotKey = buildGoalSnapshotKey goalType periodKey in
      if map_of snapshots snapshotKey \<noteq> None then snapshots
      else
        AList.update snapshotKey
          (createSnapshotForPeriod parse now ledger goalType periodKey start endD) snapshots)"

definition getCustomPeriod :: "GoalSelection \<Rightarrow> CustomGoal list \<Rightarrow> GoalPeriod option" where
  "getCustomPeriod selection custom =
     (case selection of
        PeriodSelection goalType periodKey \<Rightarrow> None
      | CustomSelection customId \<Rightarrow>
          (case find (\<lambda>entry. cg_id entry = customId) custom of
             None \<Rightarrow> None
           | Some goal \<Rightarrow>
               (let s = map toNumber (splitDash (cg_startDate goal));
                    e = map toNumber (splitDash (cg_endDate goal));
                    startYear = nthNum s 0; startMonth = nthNum s 1; startDay = nthNum s 2;
                    endYear = nthNum e 0; endMonth = nthNum e 1; endDay = nthNum e 2
                in if falsyNum startYear \<or> falsyNum startMonth \<or> falsyNum startDay
                      \<or> falsyNum endYear \<or> falsyNum endMonth \<or> falsyNum endDay
                   then None
                   else
                     Some \<lparr>gp_goalType = Custom, gp_periodKey = cg_id goal,
                           gp_label = Text (cg_name goal),
                           gp_start = newDate startYear (num2 (-) startMonth (Num 1)) startDay,
                           gp_end =
                             newDate endYear (num2 (-) endMonth (Num 1))
                               (num2 (+) endDay (Num 1))\<rparr>)))"

text \<open>
  \<^verbatim>\<open>finalizeClosedGoalSnapshots()\<close>. \<open>snapshots\<close> is the store as read once at the start
  of the sweep; each \<^verbatim>\<open>finalizeGoalSnapshot\<close> call then works on the live store, the
  accumulator of the folds. \<^verbatim>\<open>period.end.getTime() > now.getTime()\<close> is false for an
  invalid end.
\<close>

definition finalizeClosedGoalSnapshots ::
  "(string \<Rightarrow> jsdate) \<Rightarrow> int \<Rightarrow> GoalsData \<Rightarrow> CompletedAtMap \<Rightarrow> GoalSnapshots \<Rightarrow> GoalSnapshots" where
  "finalizeClosedGoalSnapshots parse now data ledger snapshots =
     (let afterTargets =
            foldl
              (\<lambda>live target.
                 case getPeriodForSelection
                        (PeriodSelection (tgt_goalType target) (tgt_periodKey target)) of
                   None \<Rightarrow> live
                 | Some period \<Rightarrow>
                     if numLess (Num now) (getTime (gp_end period)) then live
                     else if map_of snapshots
                               (buildGoalSnapshotKey (gp_goalType period) (gp_periodKey period))
                             \<noteq> None
                     then live
                     else
                       finalizeGoalSnapshot parse now ledger (gp_goalType period)
                         (gp_periodKey period) (gp_start period) (gp_end period) live)
              snapshots (targets data)
      in foldl
           (\<lambda>live goal.
              if \<not> cg_enabled goal then live
              else
                (case getCustomPeriod (CustomSelection (cg_id goal)) (customGoals data) of
                   None \<Rightarrow> live
                 | Some period \<Rightarrow>
                     if numLess (Num now) (getTime (gp_end period)) then live
                     else if map_of snapshots (buildGoalSnapshotKey Custom (cg_id goal)) \<noteq> None
                     then live
                     else
                       finalizeGoalSnapshot parse now ledger Custom (cg_id goal)
                         (gp_start period) (gp_end period) live))
           afterTargets (customGoals data))"

section \<open>Progress calculator\<close>

datatype Status = Ahead | OnTrack | Behind | FarBehind

record GoalProgress =
  title :: string
  targetVolumes :: real
  completedVolumes :: nat
  inProgressVolumes :: nat
  totalProgress :: real
  progressPercent :: real
  expectedProgressPercent :: "real jsnum"
  status :: Status
  pagesPerDayForGoal :: int
  daysRemaining :: "int jsnum"
  periodLabel :: Label
  isClosed :: bool

definition getTargetForSelection :: "GoalSelection \<Rightarrow> GoalTarget list \<Rightarrow> CustomGoal list \<Rightarrow> real" where
  "getTargetForSelection selection tgts custom =
     (case selection of
        CustomSelection customId \<Rightarrow>
          (case find (\<lambda>goal. cg_id goal = customId) custom of
             Some goal \<Rightarrow> cg_targetVolumes goal
           | None \<Rightarrow> 0)
      | PeriodSelection goalType periodKey \<Rightarrow>
          (case find (\<lambda>goal. tgt_goalType goal = goalType \<and> tgt_periodKey goal = periodKey) tgts of
             Some goal \<Rightarrow> tgt_targetVolumes goal
           | None \<Rightarrow> 0))"

definition getExpectedProgressPercent :: "jsdate \<Rightarrow> jsdate \<Rightarrow> int \<Rightarrow> real jsnum" where
  "getExpectedProgressPercent periodStart periodEnd now =
     (let totalMs = num2 (-) (getTime periodEnd) (getTime periodStart) in
      if numLessEq totalMs (Num 0) then Num 0
      else
        (let elapsedMs = num2 min (num2 max (num2 (-) (Num now) (getTime periodStart)) (Num 0)) totalMs
         in num2 (\<lambda>e t. real_of_int e / real_of_int t * 100) elapsedMs totalMs))"

definition getDaysRemainingInPeriod :: "jsdate \<Rightarrow> int \<Rightarrow> int jsnum" where
  "getDaysRemainingInPeriod periodEnd now =
     (let endMidnight = newDate (getFullYear periodEnd) (getMonth periodEnd) (getDate periodEnd);
          startMidnight = newDate (getFullYear (Date now)) (getMonth (Date now)) (getDate (Date now));
          diffInMs = num2 (-) (getTime endMidnight) (getTime startMidnight)
      in mathMax0 (mathRound (map_jsnum (\<lambda>d. real_of_int d / real_of_int msPerDay) diffInMs)))"

text \<open>\<^verbatim>\<open>x && isDateWithinRange(x, start, end)\<close> for a string \<open>x\<close> that may be absent.\<close>

definition truthyWithinRange :: "(string \<Rightarrow> jsdate) \<Rightarrow> string option \<Rightarrow> jsdate \<Rightarrow> jsdate \<Rightarrow> bool" where
  "truthyWithinRange parse x start endD =
     (case x of
        None \<Rightarrow> False
      | Some dateIso \<Rightarrow> dateIso \<noteq> [] \<and> isDateWithinRange parse dateIso start endD)"

text \<open>
  The live count of \<^verbatim>\<open>activeGoalProgress\<close>: one step of its loop over the progress log.
  The state is (completedVolumes, inProgressVolumes, totalPartialProgress,
  totalRemainingPages). A member inherited in place of a ledger entry is no date and
  counts like a missing entry, so the ledger is read by its own keys.
\<close>

definition countVolume ::
  "(string \<Rightarrow> jsdate) \<Rightarrow> Catalog \<Rightarrow> CompletedAtMap \<Rightarrow> GoalPeriod
     \<Rightarrow> nat \<times> nat \<times> real \<times> int \<Rightarrow> string \<times> VolumeData \<Rightarrow> nat \<times> nat \<times> real \<times> int" where
  "countVolume parse catalog ledger period counts entry =
     (case (counts, entry) of
        ((nCompleted, nInProgress, partial, remaining), (volumeId, volumeData)) \<Rightarrow>
          (let totalPages = (case catalog volumeId of Some n \<Rightarrow> n | None \<Rightarrow> 0);
               currentPage = progress volumeData;
               completedAt = map_of ledger volumeId
           in if truthyWithinRange parse completedAt (gp_start period) (gp_end period)
              then (nCompleted + 1, nInProgress, partial, remaining)
              else if currentPage > 1 \<and> totalPages > 0
                      \<and> truthyWithinRange parse (lastProgressUpdate volumeData)
                            (gp_start period) (gp_end period)
              then (nCompleted, nInProgress + 1,
                    partial + real_of_int currentPage / real_of_int totalPages,
                    remaining + (totalPages - currentPage))
              else counts))"

text \<open>The derived store \<^verbatim>\<open>activeGoalPeriod\<close>: the period of the active selection.\<close>

definition activeGoalPeriod :: "GoalSelection \<Rightarrow> CustomGoal list \<Rightarrow> GoalPeriod option" where
  "activeGoalPeriod selection custom =
     (case selection of
        CustomSelection customId \<Rightarrow> getCustomPeriod selection custom
      | PeriodSelection goalType periodKey \<Rightarrow> getPeriodForSelection selection)"

text \<open>
  \<^verbatim>\<open>activeGoalProgress\<close> as a function of its six input stores, the ledger it reads
  with \<^verbatim>\<open>get(_completedAtMap)\<close>, and the clock. It resolves the period with the
  expression of \<^verbatim>\<open>activeGoalPeriod\<close>. Its body is written in three parts: the four
  counters (\<open>progressCounts\<close>: from the snapshot when there is one, else from the loop
  over the progress log when the log is defined), the report computed from the counters
  (\<open>progressReport\<close>), and the function itself.
\<close>

definition progressCounts ::
  "(string \<Rightarrow> jsdate) \<Rightarrow> Volumes option \<Rightarrow> Catalog \<Rightarrow> CompletedAtMap \<Rightarrow> GoalPeriod
     \<Rightarrow> GoalSnapshot option \<Rightarrow> nat \<times> nat \<times> real \<times> int" where
  "progressCounts parse volumes catalog ledger p snapshot =
     (case snapshot of
        Some snap \<Rightarrow> (length (snap_completed snap), 0, 0, 0)
      | None \<Rightarrow>
          (case volumes of
             None \<Rightarrow> (0, 0, 0, 0)
           | Some vs \<Rightarrow> foldl (countVolume parse catalog ledger p) (0, 0, 0, 0) vs))"

definition progressReport ::
  "int \<Rightarrow> real \<Rightarrow> GoalPeriod \<Rightarrow> bool \<Rightarrow> nat \<times> nat \<times> real \<times> int \<Rightarrow> GoalProgress" where
  "progressReport now target p closedNow counts =
     (case counts of
        (nCompleted, nInProgress, totalPartialProgress, totalRemainingPages) \<Rightarrow>
          (let total = real nCompleted + totalPartialProgress;
               percent = (if target > 0 then total / target * 100 else 0);
               expected = getExpectedProgressPercent (gp_start p) (gp_end p) now;
               days = getDaysRemainingInPeriod (gp_end p) now;
               remainingVolumeEquivalent = max 0 (target - total);
               avgPagesPerVolume =
                 (if totalRemainingPages > 0 \<and> nInProgress > 0
                  then real_of_int totalRemainingPages / real nInProgress else 200);
               estimatedRemainingPages = remainingVolumeEquivalent * avgPagesPerVolume;
               pagesPerDay =
                 (case days of
                    Num d \<Rightarrow> if d > 0 then \<lceil>estimatedRemainingPages / real_of_int d\<rceil> else 0
                  | NaN \<Rightarrow> 0);
               progressRatio =
                 (case expected of
                    Num e \<Rightarrow> if e > 0 then percent / e else if percent > 0 then 2 else 1
                  | NaN \<Rightarrow> if percent > 0 then 2 else 1)
           in \<lparr>title = ''Reading Goal'', targetVolumes = target, completedVolumes = nCompleted,
               inProgressVolumes = nInProgress, totalProgress = total,
               progressPercent = percent, expectedProgressPercent = expected,
               status =
                 (if progressRatio \<ge> 11 / 10 then Ahead
                  else if progressRatio \<ge> 9 / 10 then OnTrack
                  else if progressRatio \<ge> 1 / 2 then Behind
                  else FarBehind),
               pagesPerDayForGoal = pagesPerDay, daysRemaining = days,
               periodLabel = gp_label p, isClosed = closedNow\<rparr>))"

definition activeGoalProgress ::
  "(string \<Rightarrow> jsdate) \<Rightarrow> int \<Rightarrow> GoalSelection \<Rightarrow> GoalTarget list \<Rightarrow> CustomGoal list
     \<Rightarrow> Volumes option \<Rightarrow> Catalog \<Rightarrow> GoalSnapshots \<Rightarrow> CompletedAtMap \<Rightarrow> GoalProgress" where
  "activeGoalProgress parse now selection tgts custom volumes catalog snapshots ledger =
     (let period =
            (case selection of
               CustomSelection customId \<Rightarrow> getCustomPeriod selection custom
             | PeriodSelection goalType periodKey \<Rightarrow> getPeriodForSelection selection);
          target = getTargetForSelection selection tgts custom
      in case period of
           None \<Rightarrow>
             \<lparr>title = ''Reading Goal'', targetVolumes = target, completedVolumes = 0,
              inProgressVolumes = 0, totalProgress = 0, progressPercent = 0,
              expectedProgressPercent = Num 0, status = Behind, pagesPerDayForGoal = 0,
              daysRemaining = Num 0, periodLabel = Text ''Unknown period'', isClosed = False\<rparr>
         | Some p \<Rightarrow>
             (let closedNow = numLessEq (getTime (gp_end p)) (Num now);
                  snapshotKey = buildGoalSnapshotKey (gp_goalType p) (gp_periodKey p);
                  snapshot = (if closedNow then map_of snapshots snapshotKey else None)
              in progressReport now target p closedNow
                   (progressCounts parse volumes catalog ledger p snapshot)))"

section \<open>The goal management view\<close>

text \<open>
  \<^verbatim>\<open>ManageGoalsView.svelte\<close> keeps the form of a period target and the custom goals
  under edit; its save handlers guard the store operations.
\<close>

record ManageGoalsView =
  selectedGoalType :: PeriodType
  selectedPeriodKey :: string
  targetValue :: real
  customEdits :: "(string \<times> CustomGoal) list"

definition saveTarget :: "int \<Rightarrow> ManageGoalsView \<Rightarrow> GoalsData \<Rightarrow> GoalsData" where
  "saveTarget now view data =
     (if targetValue view \<le> 0 then data
      else
        setActiveGoalSelection (PeriodSelection (selectedGoalType view) (selectedPeriodKey view))
          (setGoalTarget now (selectedGoalType view) (selectedPeriodKey view) (targetValue view)
             data))"

definition saveCustom :: "string \<Rightarrow> ManageGoalsView \<times> GoalsData \<Rightarrow> ManageGoalsView \<times> GoalsData" where
  "saveCustom goalId state =
     (case state of
        (view, data) \<Rightarrow>
          (case map_of (customEdits view) goalId of
             None \<Rightarrow> state
           | Some updated \<Rightarrow>
               if cg_name updated = [] \<or> cg_startDate updated = [] \<or> cg_endDate updated = []
                  \<or> cg_targetVolumes updated \<le> 0
               then state
               else
                 (view\<lparr>customEdits := AList.delete goalId (customEdits view)\<rparr>,
                  updateCustomGoal updated data)))"

section \<open>Example data\<close>

text \<open>Concrete stores on which the theorems below are instantiated.\<close>

definition snapshot2022 :: GoalSnapshot where
  "snapshot2022 =
     \<lparr>snap_goalType = Periodic Year, snap_periodKey = ''2022'',
      snap_startDate = ''2022-01-01'', snap_endDate = ''2023-01-01'',
      snap_closedAt = ''2023-01-02T00:00:00.000Z'', snap_completed = []\<rparr>"


definition readingGoal :: CustomGoal where
  "readingGoal =
     \<lparr>cg_id = ''g1'', cg_name = ''Summer reading'', cg_targetVolumes = 10,
      cg_startDate = ''2024-06-01'', cg_endDate = ''2024-08-31'', cg_enabled = True,
      cg_createdAt = ''2024-05-20T08:00:00.000Z''\<rparr>"

definition goalsWithCustomActive :: GoalsData where
  "goalsWithCustomActive =
     \<lparr>targets = [], customGoals = [readingGoal], activeSelection = CustomSelection ''g1''\<rparr>"

definition manageView :: ManageGoalsView where
  "manageView =
     \<lparr>selectedGoalType = Year, selectedPeriodKey = ''2024'', targetValue = 0,
      customEdits = [(''g1'', readingGoal\<lparr>cg_name := []\<rparr>)]\<rparr>"

definition snapshot2023 :: GoalSnapshot where
  "snapshot2023 =
     \<lparr>snap_goalType = Periodic Year, snap_periodKey = ''2023'',
      snap_startDate = ''2023-01-01'', snap_endDate = ''2024-01-01'',
      snap_closedAt = ''2024-01-01T09:00:00.000Z'',
      snap_completed =
        [(''v1'', ''2023-03-10T20:15:00.000Z''), (''v2'', ''2023-11-02T07:30:00.000Z'')]\<rparr>"

definition finishedVolume :: VolumeData where
  "finishedVolume = \<lparr>progress = 180, completed = True, lastProgressUpdate = None\<rparr>"

definition browserStore :: LedgerStore where
  "browserStore =
     \<lparr>browser = True, completedAtMap = [],
      volumesItem = Some [(''v1'', [(''progress'', ''180''), (''completed'', ''true'')])],
      completedAtUpdatedAt = None\<rparr>"

section \<open>Auxiliary facts about folds and association lists\<close>

lemma foldl_invariant:
  assumes "P a" and "\<And>b x. P b \<Longrightarrow> P (f b x)"
  shows "P (foldl f a xs)"
  using assms(1) by (induction xs arbitrary: a) (simp_all add: assms(2))

lemma foldl_fixed:
  assumes "\<And>x. x \<in> set xs \<Longrightarrow> f a x = a"
  shows "foldl f a xs = a"
  using assms by (induction xs) simp_all

lemma update_absent_append:
  "map_of al k = None \<Longrightarrow> AList.update k v al = al @ [(k, v)]"
  by (induction al) (auto split: if_splits)

lemma count_key_absent:
  "map_of al k = None \<Longrightarrow> filter (\<lambda>e. fst e = k) al = []"
  by (induction al) (auto split: if_splits)

lemma count_key_present:
  "distinct (map fst al) \<Longrightarrow> map_of al k = Some v \<Longrightarrow> length (filter (\<lambda>e. fst e = k) al) = 1"
proof (induction al)
  case Nil
  then show ?case by simp
next
  case (Cons p ps)
  show ?case
  proof (cases "fst p = k")
    case True
    with Cons.prems have "k \<notin> fst ` set ps" by auto
    then have "map_of ps k = None" by (simp add: map_of_eq_None_iff)
    then have "filter (\<lambda>e. fst e = k) ps = []" by (rule count_key_absent)
    with True show ?thesis by simp
  next
    case False
    with Cons show ?thesis by (cases p) auto
  qed
qed

section \<open>Snapshots are written once\<close>

lemma finalizeGoalSnapshot_present:
  "map_of snapshots (buildGoalSnapshotKey goalType periodKey) = Some s
   \<Longrightarrow> finalizeGoalSnapshot parse now ledger goalType periodKey start endD snapshots = snapshots"
  by (simp add: finalizeGoalSnapshot_def)

lemma finalizeGoalSnapshot_stores:
  "map_of (finalizeGoalSnapshot parse now ledger goalType periodKey start endD snapshots)
     (buildGoalSnapshotKey goalType periodKey) \<noteq> None"
  by (auto simp: finalizeGoalSnapshot_def Let_def update_conv')

lemma finalizeGoalSnapshot_keeps:
  "map_of snapshots k = Some v
   \<Longrightarrow> map_of (finalizeGoalSnapshot parse now ledger goalType periodKey start endD snapshots) k = Some v"
  by (auto simp: finalizeGoalSnapshot_def Let_def update_conv')

lemma finalizeClosedGoalSnapshots_keeps:
  assumes "map_of snapshots k = Some v"
  shows "map_of (finalizeClosedGoalSnapshots parse now data ledger snapshots) k = Some v"
  unfolding finalizeClosedGoalSnapshots_def Let_def
  by (intro foldl_invariant [where P = "\<lambda>live. map_of live k = Some v"] assms)
     (auto simp: finalizeGoalSnapshot_keeps split: option.splits)

lemma sweeps_keep:
  assumes "map_of snapshots k = Some v"
  shows "map_of (foldl (\<lambda>live (t, data, led). finalizeClosedGoalSnapshots parse t data led live)
                   snapshots runs) k = Some v"
  by (intro foldl_invariant [where P = "\<lambda>live. map_of live k = Some v"] assms)
     (auto simp: finalizeClosedGoalSnapshots_keeps)

lemma finalizeGoalSnapshot_one:
  assumes "distinct (map fst snapshots)"
  shows "length (filter (\<lambda>e. fst e = buildGoalSnapshotKey goalType periodKey)
           (finalizeGoalSnapshot parse now ledger goalType periodKey start endD snapshots)) = 1"
proof (cases "map_of snapshots (buildGoalSnapshotKey goalType periodKey)")
  case None
  then show ?thesis
    by (simp add: finalizeGoalSnapshot_def Let_def update_absent_append count_key_absent)
next
  case (Some s)
  then have "finalizeGoalSnapshot parse now ledger goalType periodKey start endD snapshots = snapshots"
    by (rule finalizeGoalSnapshot_present)
  moreover have "length (filter (\<lambda>e. fst e = buildGoalSnapshotKey goalType periodKey) snapshots) = 1"
    using assms Some by (rule count_key_present)
  ultimately show ?thesis by simp
qed

lemma snapshot_key_own:
  "buildGoalSnapshotKey goalType periodKey \<notin> set objectPrototypeKeys"
proof -
  have "CHR '':'' \<in> set (buildGoalSnapshotKey goalType periodKey)"
    by (simp add: buildGoalSnapshotKey_def)
  moreover have "\<forall>n\<in>set objectPrototypeKeys. CHR '':'' \<notin> set n"
    by (simp add: objectPrototypeKeys_def)
  ultimately show ?thesis by blast
qed

text \<open>
  Claim C1. \<^verbatim>\<open>finalizeGoalSnapshot\<close> inserts under the key
  \<^verbatim>\<open>"{goalType}:{periodKey}"\<close> only when the key holds no snapshot. For every snapshot
  store, the empty one included: a second call with the same arguments (whatever the
  clock and the ledger have become) returns the store of the first call unchanged, and
  that store holds a snapshot under the key; when the keys of the store are distinct, as
  the keys of an object are, it holds exactly one snapshot under the key; and a snapshot
  \<open>v\<close> stored under any key \<open>k\<close> before is still stored there after
  \<^verbatim>\<open>finalizeGoalSnapshot\<close> and after any sequence \<open>runs\<close> of
  \<^verbatim>\<open>finalizeClosedGoalSnapshots\<close> sweeps, each with its own clock, goals and ledger.
\<close>

theorem finalizeGoalSnapshot_insert_if_absent:
  "(let key = buildGoalSnapshotKey goalType periodKey;
        once = finalizeGoalSnapshot parse now ledger goalType periodKey start endD snapshots;
        twice = finalizeGoalSnapshot parse now' ledger' goalType periodKey start endD once
    in twice = once
       \<and> map_of once key \<noteq> None
       \<and> (distinct (map fst snapshots) \<longrightarrow> length (filter (\<lambda>e. fst e = key) twice) = 1)
       \<and> (map_of snapshots k = Some v \<longrightarrow>
            map_of once k = Some v
            \<and> map_of (foldl (\<lambda>live (t, data, led). finalizeClosedGoalSnapshots parse t data led live)
                        snapshots runs) k = Some v))"
proof -
  let ?key = "buildGoalSnapshotKey goalType periodKey"
  let ?once = "finalizeGoalSnapshot parse now ledger goalType periodKey start endD snapshots"
  have stored: "map_of ?once ?key \<noteq> None"
    by (rule finalizeGoalSnapshot_stores)
  then obtain s where s: "map_of ?once ?key = Some s" by blast
  have twice: "finalizeGoalSnapshot parse now' ledger' goalType periodKey start endD ?once = ?once"
    using s by (rule finalizeGoalSnapshot_present)
  have one: "length (filter (\<lambda>e. fst e = ?key) ?once) = 1" if "distinct (map fst snapshots)"
    using that by (rule finalizeGoalSnapshot_one)
  have kept: "map_of ?once k = Some v" if "map_of snapshots k = Some v"
    using that by (rule finalizeGoalSnapshot_keeps)
  have swept: "map_of (foldl (\<lambda>live (t, data, led). finalizeClosedGoalSnapshots parse t data led live)
                     snapshots runs) k = Some v" if "map_of snapshots k = Some v"
    using that by (rule sweeps_keep)
  show ?thesis
    unfolding Let_def using stored twice one kept swept by simp
qed

theorem finalizeGoalSnapshot_insert_if_absent_witness:
  "finalizeGoalSnapshot isoParse 1704499200000 [] (Periodic Year) ''2023''
       (Date 1672531200000) (Date 1704067200000)
       (finalizeGoalSnapshot isoParse 1704412800000 [(''v1'', ''2023-06-01T00:00:00.000Z'')]
          (Periodic Year) ''2023'' (Date 1672531200000) (Date 1704067200000) [])
     = finalizeGoalSnapshot isoParse 1704412800000 [(''v1'', ''2023-06-01T00:00:00.000Z'')]
         (Periodic Year) ''2023'' (Date 1672531200000) (Date 1704067200000) []
   \<and> distinct (map fst ([] :: GoalSnapshots))
   \<and> length (filter (\<lambda>e. fst e = buildGoalSnapshotKey (Periodic Year) ''2023'')
        (finalizeGoalSnapshot isoParse 1704499200000 [] (Periodic Year) ''2023''
           (Date 1672531200000) (Date 1704067200000)
           (finalizeGoalSnapshot isoParse 1704412800000 [(''v1'', ''2023-06-01T00:00:00.000Z'')]
              (Periodic Year) ''2023'' (Date 1672531200000) (Date 1704067200000) []))) = 1
   \<and> map_of [(''year:2022'', snapshot2022)] ''year:2022'' = Some snapshot2022
   \<and> map_of
        (finalizeGoalSnapshot isoParse 1704412800000 [(''v1'', ''2023-06-01T00:00:00.000Z'')]
           (Periodic Year) ''2023'' (Date 1672531200000) (Date 1704067200000)
           [(''year:2022'', snapshot2022)])
        ''year:2022''
      = Some snapshot2022
   \<and> map_of
        (foldl (\<lambda>live (t, data, led). finalizeClosedGoalSnapshots isoParse t data led live)
           [(''year:2022'', snapshot2022)] [(1704412800000, goalsWithCustomActive, [])])
        ''year:2022''
      = Some snapshot2022"
proof -
  have h0: "distinct (map fst ([] :: GoalSnapshots))" by simp
  have h2: "map_of [(''year:2022'', snapshot2022)] ''year:2022'' = Some snapshot2022" by simp
  note fresh =
    finalizeGoalSnapshot_insert_if_absent
      [where goalType = "Periodic Year" and periodKey = "''2023''" and parse = isoParse
         and now = 1704412800000 and ledger = "[(''v1'', ''2023-06-01T00:00:00.000Z'')]"
         and start = "Date 1672531200000" and endD = "Date 1704067200000"
         and snapshots = "[]" and now' = 1704499200000 and ledger' = "[]"
         and k = "''year:2022''" and v = snapshot2022 and runs = "[]", unfolded Let_def]
  note kept =
    finalizeGoalSnapshot_insert_if_absent
      [where goalType = "Periodic Year" and periodKey = "''2023''" and parse = isoParse
         and now = 1704412800000 and ledger = "[(''v1'', ''2023-06-01T00:00:00.000Z'')]"
         and start = "Date 1672531200000" and endD = "Date 1704067200000"
         and snapshots = "[(''year:2022'', snapshot2022)]" and now' = 1704499200000
         and ledger' = "[]" and k = "''year:2022''" and v = snapshot2022
         and runs = "[(1704412800000, goalsWithCustomActive, [])]", unfolded Let_def]
  show ?thesis
    using h0 h2 fresh kept by blast
qed

section \<open>The sync merge keeps the earliest time stamp\<close>







lemma persist_keeps_ledger:
  "completedAtMap (persistCompletedAtMapToVolumes now m st) = completedAtMap st"
  by (simp add: persistCompletedAtMapToVolumes_def Let_def split: option.splits)















lemma isoParse_soon: "isoParse ''soon'' = InvalidDate"
  by code_simp









section \<open>Days remaining\<close>

lemma makeDay_next: "makeDay y m (d + 1) = makeDay y m d + 1"
  by (simp add: makeDay_def Let_def)

lemma newDate_next_day:
  assumes "newDate (Num y) (Num m) (Num d) = Date a" and "a + msPerDay \<le> maxTime"
  shows "newDate (Num y) (Num m) (Num (d + 1)) = Date (a + msPerDay)"
proof -
  let ?y = "if 0 \<le> y \<and> y \<le> 99 then 1900 + y else y"
  from assms(1) have a: "a = makeDay ?y m d * msPerDay" and bound: "\<bar>a\<bar> \<le> maxTime"
    by (auto simp: timeClip_def split: if_splits)
  have "makeDay ?y m (d + 1) * msPerDay = a + msPerDay"
    unfolding a makeDay_next by (simp add: algebra_simps)
  moreover have "\<bar>a + msPerDay\<bar> \<le> maxTime"
    using bound assms(2) by (simp add: msPerDay_def)
  ultimately show ?thesis by (simp add: timeClip_def)
qed

lemma newDate_midnight:
  assumes "newDate y m d = Date a"
  shows "a mod msPerDay = 0"
  using assms by (cases y; cases m; cases d) (auto simp: timeClip_def split: if_splits)

lemma newDate_bound:
  assumes "newDate y m d = Date a"
  shows "\<bar>a\<bar> \<le> maxTime"
  using assms by (cases y; cases m; cases d) (auto simp: timeClip_def split: if_splits)

lemma startOfDay_valid:
  assumes "startOfDay d = Date a"
  obtains t where "d = Date t"
  using assms by (cases d) (simp_all add: startOfDay_def)

lemma startOfDay_midnight: "startOfDay d = Date a \<Longrightarrow> a mod msPerDay = 0"
  unfolding startOfDay_def by (rule newDate_midnight)

lemma midnight_quotient: "a mod msPerDay = 0 \<Longrightarrow> a div msPerDay * msPerDay = a"
  by (simp add: mod_eq_0_iff_dvd)

lemma round_days: "\<lfloor>real_of_int (k * msPerDay) / real_of_int msPerDay + 1 / 2\<rfloor> = k"
proof -
  have "real_of_int (k * msPerDay) / real_of_int msPerDay = real_of_int k"
    by (simp add: msPerDay_def)
  then show ?thesis by simp
qed

lemma days_between:
  assumes "a mod msPerDay = 0" and "b mod msPerDay = 0"
  shows "\<lfloor>real_of_int (a - b) / real_of_int msPerDay + 1 / 2\<rfloor> = a div msPerDay - b div msPerDay"
proof -
  have "a = (a div msPerDay) * msPerDay" "b = (b div msPerDay) * msPerDay"
    using assms by (simp_all add: mod_eq_0_iff_dvd)
  then have "a - b = (a div msPerDay - b div msPerDay) * msPerDay"
    by (metis left_diff_distrib)
  then show ?thesis by (metis round_days)
qed

lemma deadline_formula:
  assumes e: "startOfDay endD = Date a" and s: "startOfDay startDate = Date b"
    and bound: "a + msPerDay \<le> maxTime"
  shows "calculateDaysRemaining (Inr endD) startDate
           = Num (max 0 \<lfloor>real_of_int (a + msPerDay - b) / real_of_int msPerDay + 1 / 2\<rfloor>)"
proof -
  from e obtain t where t: "endD = Date t" by (rule startOfDay_valid)
  from e t have "newDate (Num (yearFromDay (t div msPerDay))) (Num (monthFromDay (t div msPerDay)))
                   (Num (dateFromDay (t div msPerDay))) = Date a"
    by (simp add: startOfDay_def)
  then have next_day:
    "newDate (Num (yearFromDay (t div msPerDay))) (Num (monthFromDay (t div msPerDay)))
       (Num (dateFromDay (t div msPerDay) + 1)) = Date (a + msPerDay)"
    using bound by (rule newDate_next_day)
  from s have start: "newDate (getFullYear startDate) (getMonth startDate) (getDate startDate) = Date b"
    by (simp add: startOfDay_def)
  show ?thesis
    unfolding calculateDaysRemaining_def Let_def t
    by (simp add: next_day start mathMax0_def mathRound_def del: newDate.simps)
qed

lemma deadline_days:
  assumes e: "startOfDay endD = Date a" and s: "startOfDay startDate = Date b"
    and bound: "a + msPerDay \<le> maxTime"
  shows "calculateDaysRemaining (Inr endD) startDate
           = Num (max 0 (a div msPerDay - b div msPerDay + 1))"
proof -
  have "(a + msPerDay) mod msPerDay = 0"
    using startOfDay_midnight [OF e] by simp
  then have "\<lfloor>real_of_int (a + msPerDay - b) / real_of_int msPerDay + 1 / 2\<rfloor>
               = (a + msPerDay) div msPerDay - b div msPerDay"
    using startOfDay_midnight [OF s] by (rule days_between)
  also have "(a + msPerDay) div msPerDay = a div msPerDay + 1"
    by (simp add: msPerDay_def)
  finally show ?thesis using deadline_formula [OF e s bound] by simp
qed

lemma deadline_past:
  assumes e: "startOfDay endD = Date a" and s: "startOfDay startDate = Date b"
    and past: "a < b"
  shows "calculateDaysRemaining (Inr endD) startDate = Num 0"
proof -
  have ma: "a div msPerDay * msPerDay = a" and mb: "b div msPerDay * msPerDay = b"
    using startOfDay_midnight e s midnight_quotient by blast+
  have "a div msPerDay * msPerDay < b div msPerDay * msPerDay"
    using past ma mb by simp
  then have lt: "a div msPerDay < b div msPerDay"
    by (simp add: msPerDay_def)
  then have "(a div msPerDay + 1) * msPerDay \<le> b div msPerDay * msPerDay"
    by (simp add: msPerDay_def)
  then have "a + msPerDay \<le> b"
    using ma mb by (simp add: algebra_simps)
  moreover have "\<bar>b\<bar> \<le> maxTime"
    using s unfolding startOfDay_def by (rule newDate_bound)
  ultimately have "a + msPerDay \<le> maxTime" by simp
  then show ?thesis
    using deadline_days [OF e s] lt by simp
qed

lemma deadline_unparseable:
  assumes "nthNum (map toNumber (splitDash s)) 0 = NaN
           \<or> nthNum (map toNumber (splitDash s)) 1 = NaN
           \<or> nthNum (map toNumber (splitDash s)) 2 = NaN"
  shows "calculateDaysRemaining (Inl s) startDate = Num 0"
  using assms unfolding calculateDaysRemaining_def Let_def by auto

lemma deadline_example:
  "calculateDaysRemaining (Inl ''2024-01-08'') (newDate (Num 2024) (Num 0) (Num 5)) = Num 4"
  by code_simp

text \<open>
  Claim C5. \<^verbatim>\<open>calculateDaysRemaining(endDate, startDate)\<close> counts whole days between
  local midnights, both end points included. With \<open>a\<close> the local midnight of the end
  date and \<open>b\<close> the local midnight of the start date (\<^verbatim>\<open>dateUtils.startOfDay\<close> of each),
  and the midnight after the end date still a valid time value, the result is
  \<open>max 0 (round ((a + 1 day - b) / 1 day))\<close>, which is the number of calendar days from
  the start day to the end day, inclusive; it is \<open>0\<close> when the end day is before the
  start day. A string end date is read as the local date of its first three
  dash-separated numbers; when one of them is missing or not a number the result is
  \<open>0\<close>, as it is for an invalid \<^verbatim>\<open>Date\<close>. From 2024-01-05 to \<^verbatim>\<open>"2024-01-08"\<close> the result
  is \<open>4\<close>.
\<close>

theorem calculateDaysRemaining_inclusive:
  "(startOfDay endD = Date a \<and> startOfDay startDate = Date b \<and> a + msPerDay \<le> maxTime \<longrightarrow>
      calculateDaysRemaining (Inr endD) startDate
        = Num (max 0 \<lfloor>real_of_int (a + msPerDay - b) / real_of_int msPerDay + 1 / 2\<rfloor>)
      \<and> calculateDaysRemaining (Inr endD) startDate
        = Num (max 0 (a div msPerDay - b div msPerDay + 1)))
   \<and> (startOfDay endD = Date a \<and> startOfDay startDate = Date b \<and> a < b \<longrightarrow>
        calculateDaysRemaining (Inr endD) startDate = Num 0)
   \<and> calculateDaysRemaining (Inl s) startDate
        = calculateDaysRemaining
            (Inr (newDate (nthNum (map toNumber (splitDash s)) 0)
                    (num2 (-) (nthNum (map toNumber (splitDash s)) 1) (Num 1))
                    (nthNum (map toNumber (splitDash s)) 2)))
            startDate
   \<and> (nthNum (map toNumber (splitDash s)) 0 = NaN
        \<or> nthNum (map toNumber (splitDash s)) 1 = NaN
        \<or> nthNum (map toNumber (splitDash s)) 2 = NaN \<longrightarrow>
        calculateDaysRemaining (Inl s) startDate = Num 0)
   \<and> calculateDaysRemaining (Inr InvalidDate) startDate = Num 0
   \<and> calculateDaysRemaining (Inl ''2024-01-08'') (newDate (Num 2024) (Num 0) (Num 5)) = Num 4"
proof (intro conjI impI)
  assume h: "startOfDay endD = Date a \<and> startOfDay startDate = Date b \<and> a + msPerDay \<le> maxTime"
  then show "calculateDaysRemaining (Inr endD) startDate
        = Num (max 0 \<lfloor>real_of_int (a + msPerDay - b) / real_of_int msPerDay + 1 / 2\<rfloor>)"
    by (simp add: deadline_formula)
  from h show "calculateDaysRemaining (Inr endD) startDate
        = Num (max 0 (a div msPerDay - b div msPerDay + 1))"
    by (simp add: deadline_days)
next
  assume "startOfDay endD = Date a \<and> startOfDay startDate = Date b \<and> a < b"
  then show "calculateDaysRemaining (Inr endD) startDate = Num 0"
    by (blast intro: deadline_past)
next
  show "calculateDaysRemaining (Inl s) startDate
        = calculateDaysRemaining
            (Inr (newDate (nthNum (map toNumber (splitDash s)) 0)
                    (num2 (-) (nthNum (map toNumber (splitDash s)) 1) (Num 1))
                    (nthNum (map toNumber (splitDash s)) 2)))
            startDate"
    by (simp add: calculateDaysRemaining_def Let_def)
next
  assume "nthNum (map toNumber (splitDash s)) 0 = NaN
        \<or> nthNum (map toNumber (splitDash s)) 1 = NaN
        \<or> nthNum (map toNumber (splitDash s)) 2 = NaN"
  then show "calculateDaysRemaining (Inl s) startDate = Num 0"
    by (rule deadline_unparseable)
next
  show "calculateDaysRemaining (Inr InvalidDate) startDate = Num 0"
    by (simp add: calculateDaysRemaining_def)
next
  show "calculateDaysRemaining (Inl ''2024-01-08'') (newDate (Num 2024) (Num 0) (Num 5)) = Num 4"
    by (rule deadline_example)
qed

lemma startOfDay_jan8: "startOfDay (Date 1704736800000) = Date 1704672000000"
  by code_simp

lemma startOfDay_jan5: "startOfDay (Date 1704456000000) = Date 1704412800000"
  by code_simp

lemma no_day_part: "nthNum (map toNumber (splitDash ''2024-01'')) 2 = NaN"
  by code_simp

theorem calculateDaysRemaining_inclusive_witness:
  "startOfDay (Date 1704736800000) = Date 1704672000000
   \<and> startOfDay (Date 1704456000000) = Date 1704412800000
   \<and> calculateDaysRemaining (Inr (Date 1704736800000)) (Date 1704456000000) = Num 4
   \<and> calculateDaysRemaining (Inr (Date 1704456000000)) (Date 1704736800000) = Num 0
   \<and> nthNum (map toNumber (splitDash ''2024-01'')) 2 = NaN
   \<and> calculateDaysRemaining (Inl ''2024-01'') (Date 1704456000000) = Num 0"
proof -
  have bound: "1704672000000 + msPerDay \<le> maxTime"
    by (simp add: msPerDay_def maxTime_def)
  have four: "calculateDaysRemaining (Inr (Date 1704736800000)) (Date 1704456000000) = Num 4"
    using calculateDaysRemaining_inclusive
      [of "Date 1704736800000" 1704672000000 "Date 1704456000000" 1704412800000 "''2024-01''"]
      startOfDay_jan8 startOfDay_jan5 bound
    by (simp add: msPerDay_def)
  have past: "calculateDaysRemaining (Inr (Date 1704456000000)) (Date 1704736800000) = Num 0"
    using calculateDaysRemaining_inclusive
      [of "Date 1704456000000" 1704412800000 "Date 1704736800000" 1704672000000 "''2024-01''"]
      startOfDay_jan8 startOfDay_jan5
    by simp
  have none: "calculateDaysRemaining (Inl ''2024-01'') (Date 1704456000000) = Num 0"
    using calculateDaysRemaining_inclusive
      [of "Date 1704736800000" 1704672000000 "Date 1704456000000" 1704412800000 "''2024-01''"]
      no_day_part
    by blast
  show ?thesis
    using startOfDay_jan8 startOfDay_jan5 four past no_day_part none by blast
qed

lemma monthFromDay_range: "0 \<le> monthFromDay n \<and> monthFromDay n \<le> 11"
  by (simp add: monthFromDay_def Let_def)

lemma makeDay_roundtrip: "makeDay (yearFromDay n) (monthFromDay n) (dateFromDay n) = n"
proof -
  have "monthFromDay n div 12 = 0" "monthFromDay n mod 12 = monthFromDay n"
    using monthFromDay_range [of n] by simp_all
  then show ?thesis
    by (simp add: makeDay_def dateFromDay_def dayWithinYear_def Let_def)
qed

lemma startOfDay_idem:
  assumes "p mod msPerDay = 0" and "\<bar>p\<bar> \<le> maxTime"
    and "\<not> (0 \<le> yearFromDay (p div msPerDay) \<and> yearFromDay (p div msPerDay) \<le> 99)"
  shows "startOfDay (Date p) = Date p"
proof -
  have "makeDay (yearFromDay (p div msPerDay)) (monthFromDay (p div msPerDay))
          (dateFromDay (p div msPerDay)) * msPerDay = p"
    using assms(1) by (simp add: makeDay_roundtrip midnight_quotient)
  moreover have "(if 0 \<le> yearFromDay (p div msPerDay) \<and> yearFromDay (p div msPerDay) \<le> 99
                  then 1900 + yearFromDay (p div msPerDay) else yearFromDay (p div msPerDay))
                 = yearFromDay (p div msPerDay)"
    using assms(3) by presburger
  ultimately show ?thesis
    using assms(2) by (simp add: startOfDay_def timeClip_def)
qed

lemma period_formula:
  assumes e: "startOfDay periodEnd = Date a" and s: "startOfDay (Date now) = Date b"
  shows "getDaysRemainingInPeriod periodEnd now
           = Num (max 0 \<lfloor>real_of_int (a - b) / real_of_int msPerDay + 1 / 2\<rfloor>)"
  using e s unfolding getDaysRemainingInPeriod_def startOfDay_def Let_def
  by (simp add: mathMax0_def mathRound_def del: newDate.simps)

lemma period_days:
  assumes e: "startOfDay periodEnd = Date a" and s: "startOfDay (Date now) = Date b"
  shows "getDaysRemainingInPeriod periodEnd now = Num (max 0 (a div msPerDay - b div msPerDay))"
  using period_formula [OF e s]
    days_between [OF startOfDay_midnight [OF e] startOfDay_midnight [OF s]]
  by simp

lemma period_is_deadline_of_last_day:
  assumes next_day:
    "newDate (getFullYear endDate) (getMonth endDate) (num2 (+) (getDate endDate) (Num 1)) = Date q"
    and year: "getFullYear (Date q) = Num y" "\<not> (0 \<le> y \<and> y \<le> 99)"
  shows "getDaysRemainingInPeriod (Date q) now = calculateDaysRemaining (Inr endDate) (Date now)"
proof -
  have valid: "getTime endDate \<noteq> NaN"
    using next_day by (cases endDate) simp_all
  have "q mod msPerDay = 0" using next_day by (rule newDate_midnight)
  moreover have "\<bar>q\<bar> \<le> maxTime" using next_day by (rule newDate_bound)
  ultimately have "startOfDay (Date q) = Date q"
    using year by (intro startOfDay_idem) simp_all
  then have idem: "newDate (getFullYear (Date q)) (getMonth (Date q)) (getDate (Date q)) = Date q"
    by (simp add: startOfDay_def)
  show ?thesis
    unfolding getDaysRemainingInPeriod_def calculateDaysRemaining_def Let_def
    using valid
    by (simp add: idem next_day
          del: newDate.simps getFullYear.simps getMonth.simps getDate.simps)
qed

lemma progress_daysRemaining:
  assumes "activeGoalPeriod selection custom = Some p"
  shows "daysRemaining
           (activeGoalProgress parse now selection tgts custom volumes catalog snapshots ledger)
           = getDaysRemainingInPeriod (gp_end p) now"
  using assms unfolding activeGoalProgress_def activeGoalPeriod_def Let_def
  by (simp add: progressReport_def Let_def split: GoalSelection.splits prod.splits)

text \<open>
  Claim C6, as stated, fails. It says the \<^verbatim>\<open>daysRemaining\<close> field is computed from the
  period's end by the deadline method of \<^verbatim>\<open>calculateDaysRemaining\<close>, which takes the
  midnight after its end date. At noon of 2024-12-31, for the year 2024, the field is
  \<open>1\<close>, while the deadline method applied to the period's end (2025-01-01) gives \<open>2\<close>.
\<close>

theorem daysRemaining_deadline_method_counterexample:
  "daysRemaining
     (activeGoalProgress isoParse 1735646400000 (PeriodSelection Year ''2024'') [] [] None
        (map_of []) [] []) = Num 1
   \<and> map_option gp_end (activeGoalPeriod (PeriodSelection Year ''2024'') [])
        = Some (Date 1735689600000)
   \<and> calculateDaysRemaining (Inr (Date 1735689600000)) (Date 1735646400000) = Num 2"
  by code_simp

text \<open>
  Claim C6, amended. The \<^verbatim>\<open>daysRemaining\<close> field of the report is
  \<^verbatim>\<open>getDaysRemainingInPeriod(period.end, now)\<close>. With \<open>a\<close> the local midnight of the
  period's exclusive end and \<open>b\<close> the local midnight of now, it is
  \<open>max 0 (round ((a - b) / 1 day))\<close>, the number of calendar days from today up to but
  not including the day of \<open>period.end\<close>: no day is added to the end. So it is the
  deadline count of \<^verbatim>\<open>calculateDaysRemaining\<close> for the last day of the period: when
  the period's end \<open>q\<close> is the midnight after an end date (in a year the \<^verbatim>\<open>Date\<close>
  constructor does not read as two-digit), both functions give the same number.
\<close>

theorem daysRemaining_counts_to_exclusive_end:
  "(activeGoalPeriod selection custom = Some p \<longrightarrow>
      daysRemaining
        (activeGoalProgress parse now selection tgts custom volumes catalog snapshots ledger)
        = getDaysRemainingInPeriod (gp_end p) now)
   \<and> (startOfDay periodEnd = Date a \<and> startOfDay (Date now) = Date b \<longrightarrow>
        getDaysRemainingInPeriod periodEnd now
          = Num (max 0 \<lfloor>real_of_int (a - b) / real_of_int msPerDay + 1 / 2\<rfloor>)
        \<and> getDaysRemainingInPeriod periodEnd now
          = Num (max 0 (a div msPerDay - b div msPerDay)))
   \<and> (newDate (getFullYear endDate) (getMonth endDate) (num2 (+) (getDate endDate) (Num 1))
          = Date q
        \<and> getFullYear (Date q) = Num y \<and> \<not> (0 \<le> y \<and> y \<le> 99) \<longrightarrow>
        getDaysRemainingInPeriod (Date q) now
          = calculateDaysRemaining (Inr endDate) (Date now))"
proof (intro conjI impI)
  assume "activeGoalPeriod selection custom = Some p"
  then show "daysRemaining
        (activeGoalProgress parse now selection tgts custom volumes catalog snapshots ledger)
        = getDaysRemainingInPeriod (gp_end p) now"
    by (rule progress_daysRemaining)
next
  assume h: "startOfDay periodEnd = Date a \<and> startOfDay (Date now) = Date b"
  then show "getDaysRemainingInPeriod periodEnd now
          = Num (max 0 \<lfloor>real_of_int (a - b) / real_of_int msPerDay + 1 / 2\<rfloor>)"
    by (simp add: period_formula)
  from h show "getDaysRemainingInPeriod periodEnd now
          = Num (max 0 (a div msPerDay - b div msPerDay))"
    by (simp add: period_days)
next
  assume "newDate (getFullYear endDate) (getMonth endDate) (num2 (+) (getDate endDate) (Num 1))
          = Date q
        \<and> getFullYear (Date q) = Num y \<and> \<not> (0 \<le> y \<and> y \<le> 99)"
  then show "getDaysRemainingInPeriod (Date q) now
          = calculateDaysRemaining (Inr endDate) (Date now)"
    by (blast intro: period_is_deadline_of_last_day)
qed

lemma year2024_period:
  "activeGoalPeriod (PeriodSelection Year ''2024'') []
     = Some \<lparr>gp_goalType = Periodic Year, gp_periodKey = ''2024'', gp_label = Text ''2024'',
             gp_start = Date 1704067200000, gp_end = Date 1735689600000\<rparr>"
  by code_simp

lemma startOfDay_jan1: "startOfDay (Date 1735689600000) = Date 1735689600000"
  by code_simp

lemma startOfDay_dec31: "startOfDay (Date 1735646400000) = Date 1735603200000"
  by code_simp

lemma day_after_dec31:
  "newDate (getFullYear (Date 1735646400000)) (getMonth (Date 1735646400000))
     (num2 (+) (getDate (Date 1735646400000)) (Num 1)) = Date 1735689600000
   \<and> getFullYear (Date 1735689600000) = Num 2025"
  by code_simp

theorem daysRemaining_counts_to_exclusive_end_witness:
  "activeGoalPeriod (PeriodSelection Year ''2024'') []
     = Some \<lparr>gp_goalType = Periodic Year, gp_periodKey = ''2024'', gp_label = Text ''2024'',
             gp_start = Date 1704067200000, gp_end = Date 1735689600000\<rparr>
   \<and> daysRemaining
       (activeGoalProgress isoParse 1735646400000 (PeriodSelection Year ''2024'') [] [] None
          (map_of []) [] [])
       = getDaysRemainingInPeriod (Date 1735689600000) 1735646400000
   \<and> startOfDay (Date 1735689600000) = Date 1735689600000
   \<and> startOfDay (Date 1735646400000) = Date 1735603200000
   \<and> getDaysRemainingInPeriod (Date 1735689600000) 1735646400000 = Num 1
   \<and> getDaysRemainingInPeriod (Date 1735689600000) 1735646400000
       = calculateDaysRemaining (Inr (Date 1735646400000)) (Date 1735646400000)"
proof -
  note inst =
    daysRemaining_counts_to_exclusive_end
      [of "PeriodSelection Year ''2024''" "[]"
          "\<lparr>gp_goalType = Periodic Year, gp_periodKey = ''2024'', gp_label = Text ''2024'',
            gp_start = Date 1704067200000, gp_end = Date 1735689600000\<rparr>"
          isoParse 1735646400000 "[]" None "map_of []" "[]" "[]"
          "Date 1735689600000" 1735689600000 1735603200000
          "Date 1735646400000" 1735689600000 2025]
  have field: "daysRemaining
       (activeGoalProgress isoParse 1735646400000 (PeriodSelection Year ''2024'') [] [] None
          (map_of []) [] [])
       = getDaysRemainingInPeriod (Date 1735689600000) 1735646400000"
    using inst year2024_period by simp
  have one: "getDaysRemainingInPeriod (Date 1735689600000) 1735646400000 = Num 1"
    using inst startOfDay_jan1 startOfDay_dec31 by (simp add: msPerDay_def)
  have same: "getDaysRemainingInPeriod (Date 1735689600000) 1735646400000
       = calculateDaysRemaining (Inr (Date 1735646400000)) (Date 1735646400000)"
    using inst day_after_dec31 by simp
  show ?thesis
    using year2024_period field startOfDay_jan1 startOfDay_dec31 one same by blast
qed

section \<open>Goal store operations\<close>

text \<open>
  Claim C8. \<^verbatim>\<open>removeCustomGoal(id)\<close> deletes the custom goal with that id and keeps
  the others in order; no goal with the id is left; the targets are untouched. The
  selection becomes the year selection with the current year's key when it pointed at
  the removed goal, and is unchanged otherwise. The operation is a total function of the
  stored aggregate, with no failing branch, whatever the targets are (an empty list
  included).
\<close>

theorem removeCustomGoal_resets_selection:
  "customGoals (removeCustomGoal now customId data)
      = filter (\<lambda>goal. cg_id goal \<noteq> customId) (customGoals data)
   \<and> customId \<notin> cg_id ` set (customGoals (removeCustomGoal now customId data))
   \<and> targets (removeCustomGoal now customId data) = targets data
   \<and> activeSelection (removeCustomGoal now customId data)
      = (if activeSelection data = CustomSelection customId
         then PeriodSelection Year (getCurrentPeriodKey now Year)
         else activeSelection data)
   \<and> getCurrentPeriodKey now Year = showInt (yearFromDay (now div msPerDay))"
  by (auto simp: removeCustomGoal_def Let_def buildYearKey_def)

lemma current_year_key: "getCurrentPeriodKey 1704456000000 Year = ''2024''"
  by code_simp

theorem removeCustomGoal_resets_selection_witness:
  "activeSelection goalsWithCustomActive = CustomSelection ''g1''
   \<and> targets goalsWithCustomActive = []
   \<and> customGoals (removeCustomGoal 1704456000000 ''g1'' goalsWithCustomActive) = []
   \<and> activeSelection (removeCustomGoal 1704456000000 ''g1'' goalsWithCustomActive)
      = PeriodSelection Year ''2024''
   \<and> activeSelection (removeCustomGoal 1704456000000 ''g2'' goalsWithCustomActive)
      = CustomSelection ''g1''"
proof -
  note removed = removeCustomGoal_resets_selection [of 1704456000000 "''g1''" goalsWithCustomActive]
  note other = removeCustomGoal_resets_selection [of 1704456000000 "''g2''" goalsWithCustomActive]
  have active: "activeSelection goalsWithCustomActive = CustomSelection ''g1''"
    and none: "targets goalsWithCustomActive = []"
    and goals: "filter (\<lambda>goal. cg_id goal \<noteq> ''g1'') (customGoals goalsWithCustomActive) = []"
    by (simp_all add: goalsWithCustomActive_def readingGoal_def)
  have gone: "customGoals (removeCustomGoal 1704456000000 ''g1'' goalsWithCustomActive) = []"
    using removed goals by simp
  have reset: "activeSelection (removeCustomGoal 1704456000000 ''g1'' goalsWithCustomActive)
                 = PeriodSelection Year ''2024''"
    using removed active current_year_key by simp
  have kept: "activeSelection (removeCustomGoal 1704456000000 ''g2'' goalsWithCustomActive)
                = CustomSelection ''g1''"
    using other active by simp
  show ?thesis
    using active none gone reset kept by blast
qed

text \<open>
  Claim C9. The save handlers of the goal management view do nothing on invalid input:
  \<^verbatim>\<open>saveTarget\<close> with a target that is not positive leaves the stored aggregate as it
  is, and \<^verbatim>\<open>saveCustom\<close> for a goal under edit with an empty name, an empty start date,
  an empty end date or a target that is not positive leaves the stored aggregate and the
  edits as they are. Both are total functions with no failing branch.
\<close>

theorem save_invalid_input_noop:
  "(targetValue view \<le> 0 \<longrightarrow> saveTarget now view data = data)
   \<and> (map_of (customEdits view) goalId = Some updated
        \<and> (cg_name updated = [] \<or> cg_startDate updated = [] \<or> cg_endDate updated = []
           \<or> cg_targetVolumes updated \<le> 0) \<longrightarrow>
        saveCustom goalId (view, data) = (view, data))"
  by (auto simp: saveTarget_def saveCustom_def)

theorem save_invalid_input_noop_witness:
  "targetValue manageView \<le> 0
   \<and> saveTarget 1704456000000 manageView goalsWithCustomActive = goalsWithCustomActive
   \<and> map_of (customEdits manageView) ''g1'' = Some (readingGoal\<lparr>cg_name := []\<rparr>)
   \<and> cg_name (readingGoal\<lparr>cg_name := []\<rparr>) = []
   \<and> saveCustom ''g1'' (manageView, goalsWithCustomActive) = (manageView, goalsWithCustomActive)"
proof -
  have h1: "targetValue manageView \<le> 0" by (simp add: manageView_def)
  have h2: "map_of (customEdits manageView) ''g1'' = Some (readingGoal\<lparr>cg_name := []\<rparr>)"
    by (simp add: manageView_def)
  have h3: "cg_name (readingGoal\<lparr>cg_name := []\<rparr>) = []" by simp
  show ?thesis
    using h1 h2 h3
      save_invalid_input_noop [of manageView 1704456000000 goalsWithCustomActive "''g1''"
        "readingGoal\<lparr>cg_name := []\<rparr>"]
    by blast
qed

section \<open>Closed periods report their snapshot\<close>

text \<open>
  Claim C4. When the period of the selection has its end at or before now and a snapshot
  is stored under the period's key, the report counts the entries of the snapshot's
  \<open>completed\<close> record as \<open>completedVolumes\<close>, counts no volume as in progress and adds
  no partial credit, and is the same report whatever the ledger, the progress log and
  the catalog hold: a completion added to the ledger changes no field.
\<close>

theorem closed_period_reports_snapshot:
  "activeGoalPeriod selection custom = Some p
   \<and> numLessEq (getTime (gp_end p)) (Num now)
   \<and> map_of snapshots (buildGoalSnapshotKey (gp_goalType p) (gp_periodKey p)) = Some snap \<longrightarrow>
     completedVolumes
         (activeGoalProgress parse now selection tgts custom volumes catalog snapshots ledger)
       = length (snap_completed snap)
     \<and> inProgressVolumes
         (activeGoalProgress parse now selection tgts custom volumes catalog snapshots ledger) = 0
     \<and> totalProgress
         (activeGoalProgress parse now selection tgts custom volumes catalog snapshots ledger)
       = real (length (snap_completed snap))
     \<and> isClosed
         (activeGoalProgress parse now selection tgts custom volumes catalog snapshots ledger)
     \<and> activeGoalProgress parse now selection tgts custom volumes' catalog' snapshots ledger'
       = activeGoalProgress parse now selection tgts custom volumes catalog snapshots ledger"
proof (intro impI)
  assume h: "activeGoalPeriod selection custom = Some p
   \<and> numLessEq (getTime (gp_end p)) (Num now)
   \<and> map_of snapshots (buildGoalSnapshotKey (gp_goalType p) (gp_periodKey p)) = Some snap"
  have report:
    "activeGoalProgress parse now selection tgts custom vs cat snapshots led
       = progressReport now (getTargetForSelection selection tgts custom) p True
           (length (snap_completed snap), 0, 0, 0)" for vs cat led
    using h unfolding activeGoalProgress_def activeGoalPeriod_def Let_def
    by (simp add: progressCounts_def)
  show "completedVolumes
         (activeGoalProgress parse now selection tgts custom volumes catalog snapshots ledger)
       = length (snap_completed snap)
     \<and> inProgressVolumes
         (activeGoalProgress parse now selection tgts custom volumes catalog snapshots ledger) = 0
     \<and> totalProgress
         (activeGoalProgress parse now selection tgts custom volumes catalog snapshots ledger)
       = real (length (snap_completed snap))
     \<and> isClosed
         (activeGoalProgress parse now selection tgts custom volumes catalog snapshots ledger)
     \<and> activeGoalProgress parse now selection tgts custom volumes' catalog' snapshots ledger'
       = activeGoalProgress parse now selection tgts custom volumes catalog snapshots ledger"
    unfolding report by (simp add: progressReport_def Let_def)
qed

lemma year2023_period:
  "activeGoalPeriod (PeriodSelection Year ''2023'') []
     = Some \<lparr>gp_goalType = Periodic Year, gp_periodKey = ''2023'', gp_label = Text ''2023'',
             gp_start = Date 1672531200000, gp_end = Date 1704067200000\<rparr>"
  by code_simp

theorem closed_period_reports_snapshot_witness:
  "activeGoalPeriod (PeriodSelection Year ''2023'') []
     = Some \<lparr>gp_goalType = Periodic Year, gp_periodKey = ''2023'', gp_label = Text ''2023'',
             gp_start = Date 1672531200000, gp_end = Date 1704067200000\<rparr>
   \<and> numLessEq (getTime (Date 1704067200000)) (Num 1704456000000)
   \<and> map_of [(''year:2023'', snapshot2023)] ''year:2023'' = Some snapshot2023
   \<and> completedVolumes
       (activeGoalProgress isoParse 1704456000000 (PeriodSelection Year ''2023'') [] [] None
          (map_of []) [(''year:2023'', snapshot2023)] []) = 2
   \<and> activeGoalProgress isoParse 1704456000000 (PeriodSelection Year ''2023'') [] []
       (Some [(''v3'', finishedVolume)]) (map_of [(''v3'', 180)])
       [(''year:2023'', snapshot2023)] [(''v3'', ''2023-12-30T10:00:00.000Z'')]
     = activeGoalProgress isoParse 1704456000000 (PeriodSelection Year ''2023'') [] [] None
         (map_of []) [(''year:2023'', snapshot2023)] []"
proof -
  let ?p = "\<lparr>gp_goalType = Periodic Year, gp_periodKey = ''2023'', gp_label = Text ''2023'',
             gp_start = Date 1672531200000, gp_end = Date 1704067200000\<rparr>"
  have closed: "numLessEq (getTime (gp_end ?p)) (Num 1704456000000)" by simp
  have stored: "map_of [(''year:2023'', snapshot2023)]
                  (buildGoalSnapshotKey (gp_goalType ?p) (gp_periodKey ?p)) = Some snapshot2023"
    by (simp add: buildGoalSnapshotKey_def)
  note inst =
    closed_period_reports_snapshot
      [of "PeriodSelection Year ''2023''" "[]" ?p 1704456000000
          "[(''year:2023'', snapshot2023)]" snapshot2023 isoParse "[]" None "map_of []" "[]"
          "Some [(''v3'', finishedVolume)]" "map_of [(''v3'', 180)]"
          "[(''v3'', ''2023-12-30T10:00:00.000Z'')]"]
  have two: "completedVolumes
       (activeGoalProgress isoParse 1704456000000 (PeriodSelection Year ''2023'') [] [] None
          (map_of []) [(''year:2023'', snapshot2023)] []) = 2"
    using inst year2023_period closed stored by (simp add: snapshot2023_def)
  have same: "activeGoalProgress isoParse 1704456000000 (PeriodSelection Year ''2023'') [] []
       (Some [(''v3'', finishedVolume)]) (map_of [(''v3'', 180)])
       [(''year:2023'', snapshot2023)] [(''v3'', ''2023-12-30T10:00:00.000Z'')]
     = activeGoalProgress isoParse 1704456000000 (PeriodSelection Year ''2023'') [] [] None
         (map_of []) [(''year:2023'', snapshot2023)] []"
    using inst year2023_period closed stored by blast
  have closed': "numLessEq (getTime (Date 1704067200000)) (Num 1704456000000)" by simp
  have stored': "map_of [(''year:2023'', snapshot2023)] ''year:2023'' = Some snapshot2023" by simp
  show ?thesis
    using year2023_period closed' stored' two same by blast
qed

section \<open>Backfill of the completion ledger\<close>


lemma toISOString_nonempty: "toISOString t \<noteq> []"
  by (simp add: toISOString_def Let_def)

lemma stamp_nonempty:
  "(case lastProgressUpdate vd of None \<Rightarrow> toISOString now
    | Some u \<Rightarrow> if u = [] then toISOString now else u) \<noteq> []"
  by (simp add: toISOString_nonempty split: option.splits)

lemma getMember_update:
  "getMember (AList.update k' v obj) k = (if k = k' then Own v else getMember obj k)"
  by (simp add: getMember_def update_conv')

lemma backfillEntry_truthy_stays:
  "\<not> falsyMember (getMember u k) \<Longrightarrow> \<not> falsyMember (getMember (backfillEntry now catalog m u e) k)"
  by (cases e) (simp add: backfillEntry_def Let_def getMember_update stamp_nonempty)

lemma backfill_fold_truthy_stays:
  "\<not> falsyMember (getMember u k)
   \<Longrightarrow> \<not> falsyMember (getMember (foldl (backfillEntry now catalog m) u vs) k)"
  by (rule foldl_invariant [where P = "\<lambda>u. \<not> falsyMember (getMember u k)"])
     (simp_all add: backfillEntry_truthy_stays)

lemma backfill_fold_completed:
  assumes "(k, vd) \<in> set vs"
    and "isVolumeCompleted vd (case catalog k of Some n \<Rightarrow> n | None \<Rightarrow> 0)"
    and "\<not> falsyMember (getMember m k) \<Longrightarrow> \<not> falsyMember (getMember u k)"
  shows "\<not> falsyMember (getMember (foldl (backfillEntry now catalog m) u vs) k)"
  using assms
proof (induction vs arbitrary: u)
  case Nil
  then show ?case by simp
next
  case (Cons e es)
  show ?case
  proof (cases "e = (k, vd)")
    case True
    have "\<not> falsyMember (getMember (backfillEntry now catalog m u e) k)"
    proof (cases "falsyMember (getMember m k)")
      case True
      with \<open>e = (k, vd)\<close> Cons.prems(2) show ?thesis
        by (simp add: backfillEntry_def Let_def getMember_update stamp_nonempty)
    next
      case False
      with Cons.prems(3) have "\<not> falsyMember (getMember u k)" by simp
      then show ?thesis by (rule backfillEntry_truthy_stays)
    qed
    then show ?thesis by (simp add: backfill_fold_truthy_stays)
  next
    case False
    with Cons.prems(1) have "(k, vd) \<in> set es" by simp
    moreover have "\<not> falsyMember (getMember m k)
                   \<Longrightarrow> \<not> falsyMember (getMember (backfillEntry now catalog m u e) k)"
      using Cons.prems(3) by (simp add: backfillEntry_truthy_stays)
    ultimately show ?thesis
      using Cons.IH [of "backfillEntry now catalog m u e"] Cons.prems(2) by simp
  qed
qed

lemma backfill_idempotent:
  "backfillCompletedAt t2 vs catalog (backfillCompletedAt t1 vs catalog m)
     = backfillCompletedAt t1 vs catalog m"
proof -
  let ?m1 = "backfillCompletedAt t1 vs catalog m"
  have "foldl (backfillEntry t2 catalog ?m1) ?m1 vs = ?m1"
  proof (rule foldl_fixed)
    fix e assume mem: "e \<in> set vs"
    obtain k vd where e: "e = (k, vd)" by (cases e)
    show "backfillEntry t2 catalog ?m1 ?m1 e = ?m1"
    proof (cases "isVolumeCompleted vd (case catalog k of Some n \<Rightarrow> n | None \<Rightarrow> 0)")
      case True
      with mem e have "\<not> falsyMember (getMember ?m1 k)"
        unfolding backfillCompletedAt_def by (intro backfill_fold_completed [where vd = vd]) simp_all
      then show ?thesis by (simp add: e backfillEntry_def)
    next
      case False
      then show ?thesis by (simp add: e backfillEntry_def Let_def)
    qed
  qed
  then show ?thesis by (simp add: backfillCompletedAt_def)
qed

lemma backfillEntry_keeps:
  "map_of m k = Some v \<Longrightarrow> v \<noteq> [] \<Longrightarrow> map_of u k = Some v
   \<Longrightarrow> map_of (backfillEntry now catalog m u e) k = Some v"
  by (cases e) (auto simp: backfillEntry_def Let_def update_conv' getMember_def)

lemma backfill_keeps:
  assumes "map_of m k = Some v" and "v \<noteq> []"
  shows "map_of (backfillCompletedAt now vs catalog m) k = Some v"
  unfolding backfillCompletedAt_def
  by (rule foldl_invariant [where P = "\<lambda>u. map_of u k = Some v"])
     (simp_all add: assms backfillEntry_keeps)

lemma backfill_distinct:
  "distinct (map fst m) \<Longrightarrow> distinct (map fst (backfillCompletedAt now vs catalog m))"
  unfolding backfillCompletedAt_def
  by (rule foldl_invariant [where P = "\<lambda>u. distinct (map fst u)"])
     (auto simp: backfillEntry_def Let_def distinct_update)

lemma persistEntry_other:
  "fst e \<noteq> k \<Longrightarrow> map_of (persistEntry payload e) k = map_of payload k"
  by (cases e) (auto simp: persistEntry_def update_conv' split: option.splits)

lemma persist_fold_other:
  "k \<notin> fst ` set m \<Longrightarrow> map_of (foldl persistEntry payload m) k = map_of payload k"
  by (induction m arbitrary: payload) (auto simp: persistEntry_other)

lemma persist_fold_carries:
  assumes "distinct (map fst m)" and "(k, c) \<in> set m"
    and "map_of (foldl persistEntry payload m) k = Some r"
  shows "AList.update ''completedAt'' c r = r"
  using assms
proof (induction m arbitrary: payload)
  case Nil
  then show ?case by simp
next
  case (Cons e es)
  show ?case
  proof (cases "e = (k, c)")
    case True
    with Cons.prems(1) have "k \<notin> fst ` set es" by auto
    then have "map_of (foldl persistEntry (persistEntry payload e) es) k
                 = map_of (persistEntry payload e) k"
      by (rule persist_fold_other)
    with Cons.prems(3) have "map_of (persistEntry payload (k, c)) k = Some r"
      using True by simp
    then obtain r0 where "r = AList.update ''completedAt'' c r0"
      by (auto simp: persistEntry_def update_conv' split: option.splits)
    then show ?thesis by simp
  next
    case False
    with Cons.prems have "(k, c) \<in> set es" by simp
    then show ?thesis
      using Cons.IH [of "persistEntry payload e"] Cons.prems(1,3) by simp
  qed
qed

lemma persist_fold_idempotent:
  assumes "distinct (map fst m)"
  shows "foldl persistEntry (foldl persistEntry payload m) m = foldl persistEntry payload m"
proof (rule foldl_fixed)
  fix e assume mem: "e \<in> set m"
  obtain k c where e: "e = (k, c)" by (cases e)
  show "persistEntry (foldl persistEntry payload m) e = foldl persistEntry payload m"
  proof (cases "map_of (foldl persistEntry payload m) k")
    case None
    then show ?thesis by (simp add: e persistEntry_def)
  next
    case (Some r)
    with assms mem e have "AList.update ''completedAt'' c r = r"
      by (auto intro: persist_fold_carries)
    with Some show ?thesis by (simp add: e persistEntry_def update_triv)
  qed
qed


lemma persist_keeps_browser:
  "browser (persistCompletedAtMapToVolumes now m st) = browser st"
  by (simp add: persistCompletedAtMapToVolumes_def split: option.splits)

lemma persist_volumesItem:
  "volumesItem (persistCompletedAtMapToVolumes now m st)
     = (if browser st then map_option (\<lambda>parsed. foldl persistEntry parsed m) (volumesItem st)
        else volumesItem st)"
  by (simp add: persistCompletedAtMapToVolumes_def split: option.splits)

lemma persist_marker:
  "completedAtUpdatedAt (persistCompletedAtMapToVolumes now m st)
     = (if browser st \<and> volumesItem st \<noteq> None then Some (toISOString now)
        else completedAtUpdatedAt st)"
  by (simp add: persistCompletedAtMapToVolumes_def split: option.splits)

lemma subscriber_second_pass:
  assumes "distinct (map fst (completedAtMap st))"
  shows "completedAtMap (backfillSubscriber t2 volumes catalog (backfillSubscriber t1 volumes catalog st))
           = completedAtMap (backfillSubscriber t1 volumes catalog st)
         \<and> volumesItem (backfillSubscriber t2 volumes catalog (backfillSubscriber t1 volumes catalog st))
           = volumesItem (backfillSubscriber t1 volumes catalog st)
         \<and> completedAtUpdatedAt
             (backfillSubscriber t2 volumes catalog (backfillSubscriber t1 volumes catalog st))
           = (if browser st \<and> volumes \<noteq> None \<and> volumesItem st \<noteq> None then Some (toISOString t2)
              else completedAtUpdatedAt (backfillSubscriber t1 volumes catalog st))"
proof (cases volumes)
  case None
  then show ?thesis by (simp add: backfillSubscriber_def)
next
  case (Some vs)
  show ?thesis
  proof (cases "browser st")
    case False
    with Some show ?thesis by (simp add: backfillSubscriber_def)
  next
    case True
    let ?m1 = "backfillCompletedAt t1 vs catalog (completedAtMap st)"
    let ?st1 = "persistCompletedAtMapToVolumes t1 ?m1 (st\<lparr>completedAtMap := ?m1\<rparr>)"
    have st1: "backfillSubscriber t1 volumes catalog st = ?st1"
      using Some True by (simp add: backfillSubscriber_def Let_def)
    have b1: "browser ?st1" using True by (simp add: persist_keeps_browser)
    have m1: "completedAtMap ?st1 = ?m1" by (simp add: persist_keeps_ledger)
    have again: "backfillCompletedAt t2 vs catalog ?m1 = ?m1" by (rule backfill_idempotent)
    have st2: "backfillSubscriber t2 volumes catalog ?st1
                 = persistCompletedAtMapToVolumes t2 ?m1 (?st1\<lparr>completedAtMap := ?m1\<rparr>)"
      using Some b1 by (simp add: backfillSubscriber_def Let_def m1 again)
    have d1: "distinct (map fst ?m1)" using assms by (rule backfill_distinct)
    have item1: "volumesItem ?st1
                   = map_option (\<lambda>parsed. foldl persistEntry parsed ?m1) (volumesItem st)"
      using True by (simp add: persist_volumesItem)
    have item2: "volumesItem (persistCompletedAtMapToVolumes t2 ?m1 (?st1\<lparr>completedAtMap := ?m1\<rparr>))
                   = volumesItem ?st1"
      using b1 d1 by (cases "volumesItem st") (simp_all add: persist_volumesItem item1 persist_fold_idempotent True)
    have marker2: "completedAtUpdatedAt (persistCompletedAtMapToVolumes t2 ?m1 (?st1\<lparr>completedAtMap := ?m1\<rparr>))
                   = (if volumesItem st \<noteq> None then Some (toISOString t2) else completedAtUpdatedAt ?st1)"
      using b1 by (cases "volumesItem st") (simp_all add: persist_marker item1)
    show ?thesis
      unfolding st1 st2 using Some True item2 marker2 by (simp add: persist_keeps_ledger)
  qed
qed

lemma subscriber_keeps:
  assumes "map_of (completedAtMap st) k = Some v" and "v \<noteq> []"
  shows "map_of (completedAtMap (backfillSubscriber now volumes catalog st)) k = Some v"
  using assms
  by (simp add: backfillSubscriber_def Let_def persist_keeps_ledger backfill_keeps split: option.splits)

text \<open>
  Claim C2, as stated, fails: a second backfill pass with the same progress log and
  catalog is not free of writes. With a persisted \<^verbatim>\<open>volumes\<close> record in place, the pass
  at noon of 2024-01-06 moves the marker \<^verbatim>\<open>completedAtUpdatedAt\<close> that the pass at noon
  of 2024-01-05 had written.
\<close>

theorem backfill_rerun_counterexample:
  "completedAtUpdatedAt
     (backfillSubscriber 1704456000000 (Some [(''v1'', finishedVolume)]) (map_of [(''v1'', 180)])
        browserStore) = Some ''2024-01-05T12:00:00.000Z''
   \<and> completedAtUpdatedAt
     (backfillSubscriber 1704542400000 (Some [(''v1'', finishedVolume)]) (map_of [(''v1'', 180)])
        (backfillSubscriber 1704456000000 (Some [(''v1'', finishedVolume)])
           (map_of [(''v1'', 180)]) browserStore)) = Some ''2024-01-06T12:00:00.000Z''"
  by code_simp

text \<open>
  Claim C2, amended. For a ledger with distinct keys, a second backfill pass with the
  same progress log and catalog leaves the ledger of the first pass as it is (no new
  entry, no time stamp changed) and leaves the persisted \<^verbatim>\<open>volumes\<close> record with the
  content the first pass gave it. The write itself still happens: in the browser, with a
  progress log and a persisted record, the pass sets the marker
  \<^verbatim>\<open>completedAtUpdatedAt\<close> to its own time; otherwise the marker stays. A pass never
  changes a non-empty time stamp that the ledger already holds.
\<close>

theorem backfill_second_pass:
  "(distinct (map fst (completedAtMap st)) \<longrightarrow>
      completedAtMap
          (backfillSubscriber t2 volumes catalog (backfillSubscriber t1 volumes catalog st))
        = completedAtMap (backfillSubscriber t1 volumes catalog st)
      \<and> volumesItem
          (backfillSubscriber t2 volumes catalog (backfillSubscriber t1 volumes catalog st))
        = volumesItem (backfillSubscriber t1 volumes catalog st)
      \<and> completedAtUpdatedAt
          (backfillSubscriber t2 volumes catalog (backfillSubscriber t1 volumes catalog st))
        = (if browser st \<and> volumes \<noteq> None \<and> volumesItem st \<noteq> None then Some (toISOString t2)
           else completedAtUpdatedAt (backfillSubscriber t1 volumes catalog st)))
   \<and> (map_of (completedAtMap st) k = Some v \<and> v \<noteq> [] \<longrightarrow>
        map_of (completedAtMap (backfillSubscriber t1 volumes catalog st)) k = Some v)"
  using subscriber_second_pass [of st t2 volumes catalog t1]
    subscriber_keeps [of st k v t1 volumes catalog]
  by blast

theorem backfill_second_pass_witness:
  "distinct (map fst (completedAtMap (browserStore\<lparr>completedAtMap := [(''v0'', ''2023-05-05T00:00:00.000Z'')]\<rparr>)))
   \<and> map_of (completedAtMap (browserStore\<lparr>completedAtMap := [(''v0'', ''2023-05-05T00:00:00.000Z'')]\<rparr>)) ''v0''
       = Some ''2023-05-05T00:00:00.000Z''
   \<and> completedAtMap
        (backfillSubscriber 1704542400000 (Some [(''v1'', finishedVolume)]) (map_of [(''v1'', 180)])
           (backfillSubscriber 1704456000000 (Some [(''v1'', finishedVolume)])
              (map_of [(''v1'', 180)])
              (browserStore\<lparr>completedAtMap := [(''v0'', ''2023-05-05T00:00:00.000Z'')]\<rparr>)))
       = completedAtMap
           (backfillSubscriber 1704456000000 (Some [(''v1'', finishedVolume)])
              (map_of [(''v1'', 180)])
              (browserStore\<lparr>completedAtMap := [(''v0'', ''2023-05-05T00:00:00.000Z'')]\<rparr>))
   \<and> map_of (completedAtMap
        (backfillSubscriber 1704456000000 (Some [(''v1'', finishedVolume)])
           (map_of [(''v1'', 180)])
           (browserStore\<lparr>completedAtMap := [(''v0'', ''2023-05-05T00:00:00.000Z'')]\<rparr>))) ''v0''
       = Some ''2023-05-05T00:00:00.000Z''"
proof -
  let ?st = "browserStore\<lparr>completedAtMap := [(''v0'', ''2023-05-05T00:00:00.000Z'')]\<rparr>"
  have h1: "distinct (map fst (completedAtMap ?st))" by simp
  have h2: "map_of (completedAtMap ?st) ''v0'' = Some ''2023-05-05T00:00:00.000Z''" by simp
  have h3: "''2023-05-05T00:00:00.000Z'' \<noteq> []" by simp
  show ?thesis
    using h1 h2 h3
      backfill_second_pass [of ?st 1704542400000 "Some [(''v1'', finishedVolume)]"
        "map_of [(''v1'', 180)]" 1704456000000 "''v0''" "''2023-05-05T00:00:00.000Z''"]
    by blast
qed

section \<open>Malformed period keys\<close>

text \<open>
  Claim C7 says the resolver returns \<^verbatim>\<open>null\<close> for every malformed key. The code does so
  for a year that is not a number, for an unknown season, for a numeric month outside 1
  to 12 and for a day key with a missing or non-numeric part. It does not for a month
  key whose month part is missing or not a number: \<^verbatim>\<open>parseMonthKey\<close> tests
  \<^verbatim>\<open>monthIndex < 0 || monthIndex > 11\<close>, both false for \<open>NaN\<close>, and the resolver
  returns a period whose start and end are invalid dates. Nor does it for the empty
  year key, which \<^verbatim>\<open>Number\<close> reads as \<open>0\<close>.
\<close>

theorem month_key_without_number_resolves:
  "getPeriodForSelection (PeriodSelection Month ''2024-xx'')
     = Some \<lparr>gp_goalType = Periodic Month, gp_periodKey = ''2024-xx'',
             gp_label = LocaleMonthYear InvalidDate, gp_start = InvalidDate,
             gp_end = InvalidDate\<rparr>
   \<and> getPeriodForSelection (PeriodSelection Month ''2024'')
     = Some \<lparr>gp_goalType = Periodic Month, gp_periodKey = ''2024'',
             gp_label = LocaleMonthYear InvalidDate, gp_start = InvalidDate,
             gp_end = InvalidDate\<rparr>
   \<and> getPeriodForSelection (PeriodSelection Year [])
     = Some \<lparr>gp_goalType = Periodic Year, gp_periodKey = [], gp_label = Text ''0'',
             gp_start = Date (- 2208988800000), gp_end = Date (- 2177452800000)\<rparr>
   \<and> getPeriodForSelection (PeriodSelection Month ''2024-13'') = None
   \<and> getPeriodForSelection (PeriodSelection Year ''xx'') = None
   \<and> getPeriodForSelection (PeriodSelection Season ''2024-Fall'') = None
   \<and> getPeriodForSelection (PeriodSelection Today ''2024-xx-05'') = None
   \<and> getPeriodForSelection (PeriodSelection Today ''2024-01'') = None"
  by code_simp

end
